theory Spec2Isabelle
  imports Complex_Main
begin

section \<open>JavaScript values\<close>

text \<open>
  A decoded response body (the \<^verbatim>\<open>unknown\<close> that \<^verbatim>\<open>response.json()\<close> resolves to) is a JSON
  value. An object is the list of its own properties in iteration order (keys distinct, as
  \<^verbatim>\<open>JSON.parse\<close> leaves them). Numbers are exact rationals: the rounding of IEEE doubles and
  the overflow to infinities are not modelled. A JSON array is dense, so reading inside its
  length never gives \<^verbatim>\<open>undefined\<close>.
\<close>

datatype json =
    JNull
  | JBool bool
  | JNum rat
  | JStr string
  | JArr "json list"
  | JObj "(string \<times> json) list"

text \<open>The \<^verbatim>\<open>typeof\<close> operator on a decoded value.\<close>

fun typeof :: "json \<Rightarrow> string" where
  "typeof JNull = ''object''"
| "typeof (JBool b) = ''boolean''"
| "typeof (JNum n) = ''number''"
| "typeof (JStr s) = ''string''"
| "typeof (JArr xs) = ''object''"
| "typeof (JObj kvs) = ''object''"

text \<open>\<^verbatim>\<open>Array.isArray\<close>.\<close>

fun isArray :: "json \<Rightarrow> bool" where
  "isArray (JArr xs) = True"
| "isArray v = False"

text \<open>
  \<^verbatim>\<open>obj[key]\<close> for the two keys the validator reads (\<^verbatim>\<open>data\<close>, \<^verbatim>\<open>carbonRate\<close>): \<open>None\<close> is
  \<^verbatim>\<open>undefined\<close>. Neither key exists on the prototype of an object or of an array.
\<close>

fun get_prop :: "json \<Rightarrow> string \<Rightarrow> json option" where
  "get_prop (JObj kvs) k = map_of kvs k"
| "get_prop v k = None"

text \<open>Decimal digits of a natural number, as \<^verbatim>\<open>Number.prototype.toString\<close> prints an index.\<close>

definition digit_char :: "nat \<Rightarrow> char" where
  "digit_char d = ''0123456789'' ! d"

fun show_nat :: "nat \<Rightarrow> string" where
  "show_nat n = (if n < 10 then [digit_char n] else show_nat (n div 10) @ [digit_char (n mod 10)])"

declare show_nat.simps [simp del]

text \<open>
  The own enumerable properties that \<^verbatim>\<open>for (const key in v)\<close> visits, filtered by
  \<^verbatim>\<open>hasOwnProperty\<close>: the properties of an object, the indices of an array.
\<close>

fun own_entries :: "json \<Rightarrow> (string \<times> json) list" where
  "own_entries (JObj kvs) = kvs"
| "own_entries (JArr xs) = zip (map show_nat [0..<length xs]) xs"
| "own_entries v = []"

section \<open>Response validation (requests.ts)\<close>

datatype APIResponse = api_bids | api_energy | api_dates

text \<open>
  \<^verbatim>\<open>Array.prototype.forEach\<close> with a callback whose only effect is \<^verbatim>\<open>console.error\<close>: the
  callback runs on every element, its console lines are collected, and whatever it returns
  is dropped.
\<close>

definition forEach_log :: "('a \<Rightarrow> string list) \<Rightarrow> 'a list \<Rightarrow> string list" where
  "forEach_log cb xs = concat (map cb xs)"

text \<open>The callbacks of the \<^verbatim>\<open>bids\<close> case (lines 486-499): console lines of one element.\<close>

definition bid_cell_cb :: "json \<Rightarrow> string list" where
  "bid_cell_cb c =
     (if typeof c \<noteq> ''number'' \<and> typeof c \<noteq> ''string''
      then [''Bid data is not numeric or strings.''] else [])"

definition bid_element_cb :: "json \<Rightarrow> string list" where
  "bid_element_cb element =
     (case element of
        JArr cells \<Rightarrow> forEach_log bid_cell_cb cells
      | _ \<Rightarrow> [''Bid data array does not contain arrays.''])"

text \<open>
  The \<^verbatim>\<open>for\<close> loop over one energy row (lines 556-570), from index \<open>dataIndex\<close>: the first
  offending cell logs and returns from the callback, which ends the loop.
\<close>

fun energy_cells :: "nat \<Rightarrow> json list \<Rightarrow> string list" where
  "energy_cells dataIndex [] = []"
| "energy_cells dataIndex (c # cs) =
     (if dataIndex = 0 then
        (if typeof c \<noteq> ''string'' \<and> c \<noteq> JNull
         then [''First element in Energy data array is not a string.'']
         else energy_cells (Suc dataIndex) cs)
      else
        (if typeof c \<noteq> ''number'' \<and> c \<noteq> JNull
         then [''Remaining elements in Energy data array are not numbers or null.'']
         else energy_cells (Suc dataIndex) cs))"

definition energy_element_cb :: "json \<Rightarrow> string list" where
  "energy_element_cb element =
     (case element of
        JArr cells \<Rightarrow> energy_cells 0 cells
      | _ \<Rightarrow> [''Energy data array does not contain arrays.''])"

text \<open>
  The \<^verbatim>\<open>for ... in\<close> loops sit in the body of \<^verbatim>\<open>ValidateResponse\<close> itself, so their
  \<^verbatim>\<open>return false\<close> does leave the function. A key is always a string.
\<close>

fun dates_entries :: "(string \<times> json) list \<Rightarrow> bool \<times> string list" where
  "dates_entries [] = (True, [])"
| "dates_entries ((key, element) # rest) =
     (if \<not> isArray element then (False, [''Date values are not arrays.''])
      else dates_entries rest)"

fun carbon_entries :: "(string \<times> json) list \<Rightarrow> bool \<times> string list" where
  "carbon_entries [] = (True, [])"
| "carbon_entries ((key, element) # rest) =
     (if typeof element \<noteq> ''number'' \<or> element = JNull
      then (False, [''Energy carbonRate values are not numbers, or are null.''])
      else carbon_entries rest)"

text \<open>
  \<^verbatim>\<open>ValidateResponse(obj, type)\<close>: the verdict and the lines written to \<^verbatim>\<open>console.error\<close>.
\<close>

definition ValidateResponse :: "json \<Rightarrow> APIResponse \<Rightarrow> bool \<times> string list" where
  "ValidateResponse obj ty =
     (if typeof obj \<noteq> ''object'' then (False, [''Response is not an object.''])
      else if obj = JNull then (False, [''Response is null.''])
      else (case ty of
        api_bids \<Rightarrow>
          (case get_prop obj ''data'' of
             None \<Rightarrow> (False, [''Bid data field is missing.''])
           | Some d \<Rightarrow>
               (case d of
                  JArr elements \<Rightarrow> (True, forEach_log bid_element_cb elements)
                | _ \<Rightarrow> (False, [''Bid data field is not an array.''])))
      | api_dates \<Rightarrow> dates_entries (own_entries obj)
      | api_energy \<Rightarrow>
          (case get_prop obj ''carbonRate'' of
             None \<Rightarrow> (False, [''Energy carbonRate field is missing.''])
           | Some cr \<Rightarrow>
               (if typeof cr \<noteq> ''object'' \<or> cr = JNull
                then (False, [''Energy carbon rate is not an object, or null.''])
                else (case get_prop obj ''data'' of
                  None \<Rightarrow> (False, [''Energy data field is missing.''])
                | Some d \<Rightarrow>
                    (case carbon_entries (own_entries cr) of
                       (False, msgs) \<Rightarrow> (False, msgs)
                     | (True, msgs) \<Rightarrow>
                         (case d of
                            JArr elements \<Rightarrow> (True, forEach_log energy_element_cb elements)
                          | _ \<Rightarrow> (False, [''Energy data field is not an array.'']))))))))"

text \<open>The boolean a caller branches on.\<close>

definition valid_response :: "json \<Rightarrow> APIResponse \<Rightarrow> bool" where
  "valid_response obj ty = fst (ValidateResponse obj ty)"

section \<open>Numbers and strings\<close>

text \<open>
  A JavaScript number that a computation of this program can produce: an exact rational, or
  \<^verbatim>\<open>NaN\<close>. Arithmetic with \<^verbatim>\<open>NaN\<close> gives \<^verbatim>\<open>NaN\<close>, and every comparison with it is false.
\<close>

datatype number = Num rat | NaN

fun num_add :: "number \<Rightarrow> number \<Rightarrow> number" where
  "num_add (Num a) (Num b) = Num (a + b)"
| "num_add a b = NaN"

fun num_sub :: "number \<Rightarrow> number \<Rightarrow> number" where
  "num_sub (Num a) (Num b) = Num (a - b)"
| "num_sub a b = NaN"

fun num_mul :: "number \<Rightarrow> number \<Rightarrow> number" where
  "num_mul (Num a) (Num b) = Num (a * b)"
| "num_mul a b = NaN"

fun num_gt :: "number \<Rightarrow> number \<Rightarrow> bool" where
  "num_gt (Num a) (Num b) = (a > b)"
| "num_gt a b = False"

text \<open>\<^verbatim>\<open>ToNumber\<close> of a value that is a number or \<^verbatim>\<open>undefined\<close> (\<open>None\<close>).\<close>

fun ToNumber :: "rat option \<Rightarrow> number" where
  "ToNumber (Some r) = Num r"
| "ToNumber None = NaN"

text \<open>
  Strings are lists of 8-bit code units. \<^verbatim>\<open>s.split(c)\<close> for a one-character separator: an
  empty string splits into one empty field.
\<close>

fun split :: "char \<Rightarrow> string \<Rightarrow> string list" where
  "split c [] = [[]]"
| "split c (x # xs) =
     (if x = c then [] # split c xs
      else (case split c xs of
              w # ws \<Rightarrow> (x # w) # ws
            | [] \<Rightarrow> [[x]]))"

text \<open>\<^verbatim>\<open>xs[i]\<close>: \<open>None\<close> is \<^verbatim>\<open>undefined\<close>, which reading past the end gives.\<close>

definition index :: "'a list \<Rightarrow> nat \<Rightarrow> 'a option" where
  "index xs i = (if i < length xs then Some (xs ! i) else None)"

text \<open>\<^verbatim>\<open>ToString\<close> of a value that is a string or \<^verbatim>\<open>undefined\<close>.\<close>

fun ToString :: "string option \<Rightarrow> string" where
  "ToString (Some s) = s"
| "ToString None = ''undefined''"

text \<open>\<^verbatim>\<open>s.slice(from, to)\<close> with non-negative arguments, and \<^verbatim>\<open>s.padStart(n, c)\<close>.\<close>

definition slice :: "nat \<Rightarrow> nat \<Rightarrow> string \<Rightarrow> string" where
  "slice from to s = take (to - from) (drop from s)"

definition padStart :: "nat \<Rightarrow> char \<Rightarrow> string \<Rightarrow> string" where
  "padStart n c s = replicate (n - length s) c @ s"

text \<open>White space and line terminators among the 8-bit code units.\<close>

definition is_space :: "char \<Rightarrow> bool" where
  "is_space c = (of_char c \<in> {9, 10, 11, 12, 13, 32, 160 :: nat})"

definition is_digit :: "char \<Rightarrow> bool" where
  "is_digit c = (48 \<le> (of_char c :: nat) \<and> (of_char c :: nat) \<le> 57)"

text \<open>The value of a digit in radix 16 (and so in radix 10), \<open>None\<close> for any other character.\<close>

definition hex_val :: "char \<Rightarrow> nat option" where
  "hex_val c =
     (let n = (of_char c :: nat) in
      if 48 \<le> n \<and> n \<le> 57 then Some (n - 48)
      else if 97 \<le> n \<and> n \<le> 102 then Some (n - 87)
      else if 65 \<le> n \<and> n \<le> 70 then Some (n - 55)
      else None)"

definition is_radix_digit :: "nat \<Rightarrow> char \<Rightarrow> bool" where
  "is_radix_digit R c = (case hex_val c of Some v \<Rightarrow> v < R | None \<Rightarrow> False)"

definition digits_val :: "nat \<Rightarrow> string \<Rightarrow> nat" where
  "digits_val R Z = foldl (\<lambda>a c. a * R + (case hex_val c of Some v \<Rightarrow> v | None \<Rightarrow> 0)) 0 Z"

text \<open>
  \<^verbatim>\<open>Number.parseInt(s)\<close> with no radix: leading white space, a sign, a \<^verbatim>\<open>0x\<close> prefix, then
  the longest run of digits; \<^verbatim>\<open>NaN\<close> when that run is empty.
\<close>

definition parseInt :: "string \<Rightarrow> number" where
  "parseInt inputString =
     (let S = dropWhile is_space inputString;
          sign = (if take 1 S = ''-'' then - 1 else 1 :: rat);
          S1 = (if take 1 S = ''+'' \<or> take 1 S = ''-'' then drop 1 S else S);
          R = (if take 2 S1 = ''0x'' \<or> take 2 S1 = ''0X'' then 16 else 10 :: nat);
          S2 = (if R = 16 then drop 2 S1 else S1);
          Z = takeWhile (is_radix_digit R) S2
      in if Z = [] then NaN else Num (sign * of_nat (digits_val R Z)))"

text \<open>
  The unary \<^verbatim>\<open>+\<close> on a string, for decimal literals without exponent: surrounding white
  space is dropped, the empty string is 0, then an optional sign, digits and at most one
  point. Exponents, \<^verbatim>\<open>0x\<close>/\<^verbatim>\<open>0o\<close>/\<^verbatim>\<open>0b\<close> literals and \<^verbatim>\<open>Infinity\<close> take three characters or
  more; the program applies \<^verbatim>\<open>+\<close> only to fields of one or two characters.
\<close>

definition trim :: "string \<Rightarrow> string" where
  "trim s = rev (dropWhile is_space (rev (dropWhile is_space s)))"

definition to_number :: "string \<Rightarrow> number" where
  "to_number s =
     (let t = trim s in
      if t = [] then Num 0
      else
        let sign = (if take 1 t = ''-'' then - 1 else 1 :: rat);
            u = (if take 1 t = ''+'' \<or> take 1 t = ''-'' then drop 1 t else t);
            ip = takeWhile is_digit u;
            rest = dropWhile is_digit u
        in (case rest of
              [] \<Rightarrow> (if ip = [] then NaN else Num (sign * of_nat (digits_val 10 ip)))
            | d # fr \<Rightarrow>
                (if d = CHR ''.'' \<and> list_all is_digit fr \<and> (ip \<noteq> [] \<or> fr \<noteq> [])
                 then Num (sign * (of_nat (digits_val 10 ip)
                                   + of_nat (digits_val 10 fr) / 10 ^ length fr))
                 else NaN)))"

text \<open>\<^verbatim>\<open>utils.ts\<close>: the month names.\<close>

definition MonthNames :: "string list" where
  "MonthNames = [''January'', ''February'', ''March'', ''April'', ''May'', ''June'', ''July'',
     ''August'', ''September'', ''October'', ''November'', ''December'']"

text \<open>
  \<^verbatim>\<open>xs[n]\<close> for a number \<open>n\<close>: an element when \<open>n\<close> is an integer inside the array,
  \<^verbatim>\<open>undefined\<close> otherwise (also for \<^verbatim>\<open>NaN\<close>, which names the property \<^verbatim>\<open>"NaN"\<close>).
\<close>

fun index_num :: "'a list \<Rightarrow> number \<Rightarrow> 'a option" where
  "index_num xs NaN = None"
| "index_num xs (Num q) =
     (if of_int \<lfloor>q\<rfloor> = q \<and> 0 \<le> q then index xs (nat \<lfloor>q\<rfloor>) else None)"

section \<open>The transformers (requests.ts)\<close>

text \<open>
  \<^verbatim>\<open>ResponseRegistry\<close>. The transformers read a row by position and cast each cell
  (\<^verbatim>\<open>element[1] as number\<close>) with no check at run time. The model takes a row whose cells have
  the run-time type of their cast, so a row is the tuple of the constants read from it:
  a bid row is \<open>(date, hour, type, volume, price)\<close>, where \<open>type\<close> is any string
  (\<^verbatim>\<open>BidType\<close> is a string enumeration, compared as a string); an energy row is the timestamp
  (\<open>None\<close> when it is \<^verbatim>\<open>null\<close>), the three predicted numbers and the three real ones, each
  of which may be \<^verbatim>\<open>null\<close>. A mapping is the list of its entries in iteration order.
\<close>

type_synonym CarbonList = "(string \<times> rat) list"

type_synonym bid_row = "string \<times> rat \<times> string \<times> rat \<times> rat"

type_synonym energy_row =
  "string option \<times> rat \<times> rat \<times> rat \<times> rat option \<times> rat option \<times> rat option"

record energy_response =
  raw_data :: "energy_row list"
  raw_carbonRate :: CarbonList

text \<open>A day of the dates response: a number, as the backend sends it, or a string, as declared.\<close>

datatype day_value = DayNumber int | DayString string

type_synonym dates_response = "(string \<times> day_value list) list"

text \<open>\<^verbatim>\<open>BidType\<close>.\<close>

definition Sell :: string where "Sell = ''SELL''"
definition Buy :: string where "Buy = ''BUY''"

record Bid =
  bid_date :: string
  hour :: rat
  bid_type :: string
  volume :: rat
  price :: rat

record BidData =
  bids :: "Bid list"
  profit :: rat
  volumeSold :: rat
  volumeBrought :: rat
  totalVolume :: rat

record EnergyData =
  timesE :: "string option list"
  predictedBuildingDemand :: "rat list"
  predictedSolarGeneration :: "rat list"
  predictedWindGeneration :: "rat list"
  realBuildingDemand :: "rat option list"
  realSolarGeneration :: "rat option list"
  realWindGeneration :: "rat option list"
  predictedTotalGeneration :: "rat list"
  realTotalGeneration :: "rat option list"
  predictedNetGeneration :: "rat list"
  realNetGeneration :: "rat option list"
  carbonRate :: CarbonList
  predictedCarbonSaved :: number
  realCarbonSaved :: number

record ReportDay =
  day_date :: string
  day :: number

record ReportMonth =
  days :: "ReportDay list"
  month :: number
  year :: number
  month_date :: string
  name :: "string option"

type_synonym ReportMonths = "ReportMonth list"

text \<open>
  \<^verbatim>\<open>ProcessBids\<close>: the callback of \<^verbatim>\<open>data.data.forEach\<close> (lines 267-289) on the accumulators
  \<open>bids\<close>, \<open>profit\<close>, \<open>volumeSold\<close>, \<open>volumeBrought\<close>, \<open>totalVolume\<close>, which are the
  fields of the result.
\<close>

definition bids_cb :: "BidData \<Rightarrow> bid_row \<Rightarrow> BidData" where
  "bids_cb acc element =
     (case element of (date, hour', type, volume', price') \<Rightarrow>
        \<lparr> bids = bids acc @
             [\<lparr> bid_date = date, hour = hour', bid_type = type, volume = volume', price = price' \<rparr>],
          profit = profit acc + volume' * price' * (if type = Sell then 1 else - 1),
          volumeSold = volumeSold acc + volume' * (if type = Sell then 1 else 0),
          volumeBrought = volumeBrought acc + volume' * (if type = Buy then 1 else 0),
          totalVolume = totalVolume acc + volume' \<rparr>)"

definition ProcessBids :: "bid_row list \<Rightarrow> BidData" where
  "ProcessBids data =
     foldl bids_cb
       \<lparr> bids = [], profit = 0, volumeSold = 0, volumeBrought = 0, totalVolume = 0 \<rparr> data"

text \<open>
  \<^verbatim>\<open>ProcessEnergy\<close>: the callback of \<^verbatim>\<open>data.data.forEach\<close> (lines 330-367). \<open>rate\<close> is the local
  \<^verbatim>\<open>carbonRate\<close>: 0 unless the timestamp is a string, and then whatever the lookup of the
  first ten characters gives, \<^verbatim>\<open>undefined\<close> (\<open>None\<close>) included.
\<close>

definition energy_cb :: "CarbonList \<Rightarrow> EnergyData \<Rightarrow> energy_row \<Rightarrow> EnergyData" where
  "energy_cb rates acc element =
     (case element of (e0, e1, e2, e3, e4, e5, e6) \<Rightarrow>
        let rate = (case e0 of Some s \<Rightarrow> map_of rates (slice 0 10 s) | None \<Rightarrow> Some 0);
            predictedNet = e2 + e3 - e1;
            acc1 = acc
              \<lparr> timesE := timesE acc @ [e0],
                predictedBuildingDemand := predictedBuildingDemand acc @ [e1],
                predictedSolarGeneration := predictedSolarGeneration acc @ [e2],
                predictedWindGeneration := predictedWindGeneration acc @ [e3],
                predictedTotalGeneration := predictedTotalGeneration acc @ [e2 + e3],
                predictedNetGeneration := predictedNetGeneration acc @ [predictedNet],
                predictedCarbonSaved :=
                  num_add (predictedCarbonSaved acc) (num_mul (Num predictedNet) (ToNumber rate)),
                realBuildingDemand := realBuildingDemand acc @ [e4],
                realSolarGeneration := realSolarGeneration acc @ [e5],
                realWindGeneration := realWindGeneration acc @ [e6] \<rparr>
        in (case (e5, e6) of
              (Some solar, Some wind) \<Rightarrow>
                (case e4 of
                   Some demand \<Rightarrow>
                     acc1 \<lparr> realTotalGeneration := realTotalGeneration acc1 @ [Some (solar + wind)],
                            realNetGeneration :=
                              realNetGeneration acc1 @ [Some (solar + wind - demand)],
                            realCarbonSaved :=
                              num_add (realCarbonSaved acc1)
                                (num_mul (Num (solar + wind - demand)) (ToNumber rate)) \<rparr>
                 | None \<Rightarrow>
                     acc1 \<lparr> realTotalGeneration := realTotalGeneration acc1 @ [Some (solar + wind)],
                            realNetGeneration := realNetGeneration acc1 @ [None] \<rparr>)
            | _ \<Rightarrow>
                acc1 \<lparr> realTotalGeneration := realTotalGeneration acc1 @ [None],
                       realNetGeneration := realNetGeneration acc1 @ [None] \<rparr>))"

definition ProcessEnergy :: "energy_response \<Rightarrow> EnergyData" where
  "ProcessEnergy data =
     foldl (energy_cb (raw_carbonRate data))
       \<lparr> timesE = [],
         predictedBuildingDemand = [], predictedSolarGeneration = [],
         predictedWindGeneration = [],
         realBuildingDemand = [], realSolarGeneration = [], realWindGeneration = [],
         predictedTotalGeneration = [], realTotalGeneration = [],
         predictedNetGeneration = [], realNetGeneration = [],
         carbonRate = raw_carbonRate data,
         predictedCarbonSaved = Num 0, realCarbonSaved = Num 0 \<rparr>
       (raw_data data)"

text \<open>
  \<^verbatim>\<open>ProcessDates\<close>. \<^verbatim>\<open>day.toString()\<close> prints an integer in decimal digits (what JavaScript
  does below \<open>10\<^sup>2\<^sup>1\<close>) and leaves a string as it is.
\<close>

definition show_int :: "int \<Rightarrow> string" where
  "show_int i = (if i < 0 then CHR ''-'' # show_nat (nat (- i)) else show_nat (nat i))"

fun day_toString :: "day_value \<Rightarrow> string" where
  "day_toString (DayNumber i) = show_int i"
| "day_toString (DayString s) = s"

definition day_cb :: "string \<Rightarrow> ReportDay list \<Rightarrow> day_value \<Rightarrow> ReportDay list" where
  "day_cb yearMonth days' d =
     days' @ [\<lparr> day_date = yearMonth @ ''-'' @ padStart 2 (CHR ''0'') (day_toString d),
                day = parseInt (day_toString d) \<rparr>]"

definition month_step :: "ReportMonths \<Rightarrow> string \<times> day_value list \<Rightarrow> ReportMonths" where
  "month_step months entry =
     (case entry of (yearMonth, monthDays) \<Rightarrow>
        let month' = parseInt (ToString (index (split (CHR ''-'') yearMonth) 1));
            year' = parseInt (ToString (index (split (CHR ''-'') yearMonth) 0));
            days' = foldl (day_cb yearMonth) [] monthDays
        in months @
             [\<lparr> days = days', month = month', year = year', month_date = yearMonth,
                name = index_num MonthNames (num_sub month' (Num 1)) \<rparr>])"

definition ProcessDates :: "dates_response \<Rightarrow> ReportMonths" where
  "ProcessDates data = foldl month_step [] data"

section \<open>From a decoded body to a typed response\<close>

text \<open>
  The casts \<^verbatim>\<open>result as ResponseRegistry["bids"]\<close> and its siblings of index.ts check nothing.
  These functions say which decoded bodies do have the declared shape, with every cell the
  transformer reads of the type it is cast to; they return \<open>None\<close> for the others, on which
  the transformers are not modelled.
\<close>

fun as_bid_row :: "json \<Rightarrow> bid_row option" where
  "as_bid_row (JArr (JStr d # JNum h # JStr t # JNum v # JNum p # rest)) = Some (d, h, t, v, p)"
| "as_bid_row v = None"

definition as_bids :: "json \<Rightarrow> bid_row list option" where
  "as_bids obj =
     (case get_prop obj ''data'' of
        Some (JArr rows) \<Rightarrow> those (map as_bid_row rows)
      | _ \<Rightarrow> None)"

fun as_nullable_string :: "json \<Rightarrow> string option option" where
  "as_nullable_string (JStr s) = Some (Some s)"
| "as_nullable_string JNull = Some None"
| "as_nullable_string v = None"

fun as_nullable_number :: "json \<Rightarrow> rat option option" where
  "as_nullable_number (JNum n) = Some (Some n)"
| "as_nullable_number JNull = Some None"
| "as_nullable_number v = None"

fun as_energy_row :: "json \<Rightarrow> energy_row option" where
  "as_energy_row (JArr (c0 # JNum e1 # JNum e2 # JNum e3 # c4 # c5 # c6 # rest)) =
     (case (as_nullable_string c0, as_nullable_number c4, as_nullable_number c5,
            as_nullable_number c6) of
        (Some e0, Some e4, Some e5, Some e6) \<Rightarrow> Some (e0, e1, e2, e3, e4, e5, e6)
      | _ \<Rightarrow> None)"
| "as_energy_row v = None"

fun as_rate :: "string \<times> json \<Rightarrow> (string \<times> rat) option" where
  "as_rate (k, JNum r) = Some (k, r)"
| "as_rate (k, v) = None"

definition as_energy :: "json \<Rightarrow> energy_response option" where
  "as_energy obj =
     (case (get_prop obj ''data'', get_prop obj ''carbonRate'') of
        (Some (JArr rows), Some (JObj rates)) \<Rightarrow>
          (case (those (map as_energy_row rows), those (map as_rate rates)) of
             (Some d, Some c) \<Rightarrow> Some \<lparr> raw_data = d, raw_carbonRate = c \<rparr>
           | _ \<Rightarrow> None)
      | _ \<Rightarrow> None)"

fun as_day :: "json \<Rightarrow> day_value option" where
  "as_day (JNum q) = (if of_int \<lfloor>q\<rfloor> = q then Some (DayNumber \<lfloor>q\<rfloor>) else None)"
| "as_day (JStr s) = Some (DayString s)"
| "as_day v = None"

fun as_month :: "string \<times> json \<Rightarrow> (string \<times> day_value list) option" where
  "as_month (k, JArr ds) = map_option (Pair k) (those (map as_day ds))"
| "as_month (k, v) = None"

fun as_dates :: "json \<Rightarrow> dates_response option" where
  "as_dates (JObj kvs) = those (map as_month kvs)"
| "as_dates v = None"

section \<open>The page (index.ts)\<close>

datatype DateType = Day | Month

datatype SkeletonType = SkEnergy | SkMarket | SkDates

datatype SkeletonState = Hidden | Visible | Error

text \<open>
  Calls of the external sinks, in order: the four energy charts, the market chart, the two
  summary cards (\<open>None\<close> is the \<^verbatim>\<open>null\<close> aggregate, shown as "No Data"), the bid table and the
  list of report dates.
\<close>

datatype render =
    WindPower EnergyData
  | SolarPower EnergyData
  | OverviewPower EnergyData
  | NetPower EnergyData
  | CarbonCard "EnergyData option"
  | OverviewMarket BidData
  | ProfitCard "BidData option"
  | BidTable BidData
  | DatesList ReportMonths

text \<open>
  The module-level variables of index.ts and what the page shows. \<open>skeleton\<close> is the state
  last given to \<^verbatim>\<open>skeletons\<close> for each section; \<open>buttonLoading\<close> and \<open>overlay\<close> are the
  \<^verbatim>\<open>loading\<close> attribute of the download button and the \<^verbatim>\<open>overlay\<close> class; \<open>console\<close> holds the
  message strings given to \<^verbatim>\<open>console.error\<close>; \<open>requests\<close> the fetches not yet settled;
  \<open>downloads\<close> the links clicked; \<open>urlDate\<close> the date found in the page's URL by \<^verbatim>\<open>pageLoad\<close>.
  The two flags are \<^verbatim>\<open>undefined\<close> before their first assignment, which \<^verbatim>\<open>download\<close> reads as
  false. \<open>flagLoading\<close> is \<open>None\<close> while it holds no integer (\<^verbatim>\<open>undefined\<close> before
  \<^verbatim>\<open>ChangeDate\<close> first assigns it).
\<close>

record page =
  PageDate :: string
  PageType :: DateType
  HasBidData :: bool
  HasEnergyData :: bool
  flagLoading :: "int option"
  Dates :: ReportMonths
  Energy :: "EnergyData option"
  Bids :: "BidData option"
  skeleton :: "SkeletonType \<Rightarrow> SkeletonState"
  buttonLoading :: bool
  overlay :: bool
  title :: string
  href :: string
  docTitle :: string
  rendered :: "render list"
  console :: "string list"
  requests :: "(APIResponse \<times> string) list"
  downloads :: "string list"
  urlDate :: "string option"

definition skeletons :: "SkeletonState \<Rightarrow> SkeletonType \<Rightarrow> page \<Rightarrow> page" where
  "skeletons show ty s = s \<lparr> skeleton := (skeleton s)(ty := show) \<rparr>"

definition console_error :: "string list \<Rightarrow> page \<Rightarrow> page" where
  "console_error msgs s = s \<lparr> console := console s @ msgs \<rparr>"

definition sink :: "render list \<Rightarrow> page \<Rightarrow> page" where
  "sink rs s = s \<lparr> rendered := rendered s @ rs \<rparr>"

text \<open>\<^verbatim>\<open>ValidateDate\<close> (lines 518-560), check by check.\<close>

definition ValidateDate :: "string \<Rightarrow> bool" where
  "ValidateDate date =
     (if length date < 6 then False
      else if length date > 10 then False
      else
        let split' = split (CHR ''-'') date in
        if \<not> (length split' = 2 \<or> length split' = 3) then False
        else if length (split' ! 0) \<noteq> 4 then False
        else if length (split' ! 1) > 2 \<or> length (split' ! 1) = 0 then False
        else if length split' = 3 \<and> (length (split' ! 2) > 2 \<or> length (split' ! 2) = 0)
          then False
        else if num_gt (to_number (split' ! 1)) (Num 12) then False
        else if length split' = 3 \<and> num_gt (to_number (split' ! 2)) (Num 31) then False
        else True)"

text \<open>\<^verbatim>\<open>UpdatePage\<close>: the header text, the URL and the document title.\<close>

definition UpdatePage :: "page \<Rightarrow> page" where
  "UpdatePage s =
     (let dateSplit = split (CHR ''-'') (PageDate s);
          monthNumber = (case index dateSplit 1 of Some f \<Rightarrow> to_number f | None \<Rightarrow> NaN);
          monthText = ToString (index_num MonthNames (num_sub monthNumber (Num 1)))
      in s \<lparr> title :=
               (if PageType s = Day
                then ToString (index dateSplit 0) @ ''-'' @ monthText @ ''-''
                       @ ToString (index dateSplit 2)
                else monthText @ '' Overview''),
             href := ToString (index (split (CHR ''?'') (href s)) 0) @ ''?date='' @ PageDate s,
             docTitle := ''Report | '' @ PageDate s \<rparr>)"

definition markLoading :: "page \<Rightarrow> page" where
  "markLoading s =
     s \<lparr> flagLoading := map_option (\<lambda>n. n + 1) (flagLoading s),
         buttonLoading := True, overlay := True \<rparr>"

definition markLoaded :: "page \<Rightarrow> page" where
  "markLoaded s =
     (let s1 = s \<lparr> flagLoading := map_option (\<lambda>n. n - 1) (flagLoading s) \<rparr>
      in if flagLoading s1 = Some 0 then s1 \<lparr> buttonLoading := False, overlay := False \<rparr> else s1)"

text \<open>
  \<^verbatim>\<open>ChangeDate\<close> up to the two requests it sends (lines 229-248 and 310); what happens when
  a request settles is below.
\<close>

definition ChangeDate :: "string \<Rightarrow> page \<Rightarrow> page" where
  "ChangeDate date s =
     (if \<not> ValidateDate date
      then console_error [''Invalid Date from JavaScript: '' @ date] s
      else
        let s1 = s \<lparr> PageType := (if length date = 7 then Month else Day), PageDate := date \<rparr>;
            s2 = UpdatePage s1;
            s3 = markLoading (s2 \<lparr> flagLoading := Some 1 \<rparr>)
        in s3 \<lparr> requests := requests s3 @ [(api_energy, date), (api_bids, date)] \<rparr>)"

subsection \<open>The two pipelines of ChangeDate\<close>

text \<open>
  How a request ends: the fetch is rejected (the outer \<^verbatim>\<open>catch\<close>), the body is not JSON (the
  inner \<^verbatim>\<open>catch\<close>), or a body is decoded and given to the inner \<^verbatim>\<open>then\<close>.
\<close>

datatype outcome = FetchRejected | JsonRejected | Body json

text \<open>The inner \<^verbatim>\<open>catch\<close> of the energy pipeline (lines 292-298) and the outer one (302-308).\<close>

definition energy_catch :: "page \<Rightarrow> page" where
  "energy_catch s =
     skeletons Error SkEnergy
       (sink [CarbonCard None]
          ((console_error [''Error parsing energy data''] s) \<lparr> HasEnergyData := False \<rparr>))"

definition energy_rejected :: "page \<Rightarrow> page" where
  "energy_rejected s =
     markLoaded
       (skeletons Error SkEnergy
          (sink [CarbonCard None]
             ((console_error [''Error requesting energy data''] s) \<lparr> HasEnergyData := False \<rparr>)))"

text \<open>
  The inner \<^verbatim>\<open>then\<close> of the energy pipeline (lines 252-291). A failed validation logs and
  returns. After a passed one the body is transformed and the labels are cut with
  \<^verbatim>\<open>time.slice\<close>, which throws on a \<^verbatim>\<open>null\<close> timestamp: the inner \<^verbatim>\<open>catch\<close> then runs on the
  state reached so far. \<open>None\<close>: the body passed validation without having the declared
  shape.
\<close>

definition energy_then :: "json \<Rightarrow> page \<Rightarrow> page option" where
  "energy_then result s =
     (let s0 = console_error (snd (ValidateResponse result api_energy)) s in
      if \<not> valid_response result api_energy
      then Some (console_error [''Invalid api response from energy endpoint''] s0)
      else
        (case as_energy result of
           None \<Rightarrow> None
         | Some r \<Rightarrow>
             let e = ProcessEnergy r;
                 s1 = s0 \<lparr> Energy := Some e, HasEnergyData := True \<rparr>
             in if None \<in> set (timesE e) then Some (energy_catch s1)
                else
                  let newTimes =
                        map (map_option (\<lambda>time. if PageType s1 = Day then slice 11 16 time
                                                 else slice 0 16 time)) (timesE e);
                      e' = e \<lparr> timesE := newTimes \<rparr>;
                      s2 = sink [WindPower e', SolarPower e', OverviewPower e', NetPower e',
                                 CarbonCard (Some e')] (s1 \<lparr> Energy := Some e' \<rparr>)
                  in Some (skeletons Hidden SkEnergy s2)))"

text \<open>The whole energy pipeline; \<^verbatim>\<open>finally\<close> runs \<^verbatim>\<open>markLoaded\<close> after the inner handlers.\<close>

fun energy_settle :: "outcome \<Rightarrow> page \<Rightarrow> page option" where
  "energy_settle FetchRejected s = Some (energy_rejected s)"
| "energy_settle JsonRejected s = Some (markLoaded (energy_catch s))"
| "energy_settle (Body result) s = map_option markLoaded (energy_then result s)"

text \<open>The bids pipeline (lines 310-354), of the same build.\<close>

definition bids_catch :: "page \<Rightarrow> page" where
  "bids_catch s =
     skeletons Error SkMarket
       (sink [ProfitCard None]
          ((console_error [''Error parsing bids''] s) \<lparr> HasBidData := False \<rparr>))"

definition bids_rejected :: "page \<Rightarrow> page" where
  "bids_rejected s =
     markLoaded
       (skeletons Error SkMarket
          (sink [ProfitCard None]
             ((console_error [''Error requesting bids''] s) \<lparr> HasBidData := False \<rparr>)))"

definition bids_then :: "json \<Rightarrow> page \<Rightarrow> page option" where
  "bids_then result s =
     (let s0 = console_error (snd (ValidateResponse result api_bids)) s in
      if \<not> valid_response result api_bids
      then Some (console_error [''Invalid api response from bids endpoint''] s0)
      else
        (case as_bids result of
           None \<Rightarrow> None
         | Some r \<Rightarrow>
             let b = ProcessBids r;
                 s1 = s0 \<lparr> Bids := Some b, HasBidData := True \<rparr>;
                 s2 = sink [OverviewMarket b, ProfitCard (Some b), BidTable b] s1
             in Some (skeletons Hidden SkMarket s2)))"

fun bids_settle :: "outcome \<Rightarrow> page \<Rightarrow> page option" where
  "bids_settle FetchRejected s = Some (bids_rejected s)"
| "bids_settle JsonRejected s = Some (markLoaded (bids_catch s))"
| "bids_settle (Body result) s = map_option markLoaded (bids_then result s)"

subsection \<open>Resolving the page date against the catalog (pageLoad, lines 659-709)\<close>

text \<open>\<^verbatim>\<open>latest\<close> is a day, a month or \<^verbatim>\<open>null\<close>.\<close>

datatype found = FoundDay ReportDay | FoundMonth ReportMonth

fun found_date :: "found \<Rightarrow> string" where
  "found_date (FoundDay d) = day_date d"
| "found_date (FoundMonth m) = month_date m"

text \<open>
  The inner loop over the days of the month (lines 674-691), from the current \<^verbatim>\<open>latest\<close>:
  the result is \<^verbatim>\<open>latest\<close> and \<^verbatim>\<open>foundExact\<close>.
\<close>

fun scan_days :: "string \<Rightarrow> ReportDay option \<Rightarrow> ReportDay list \<Rightarrow> ReportDay option \<times> bool" where
  "scan_days pageDate latest [] = (latest, False)"
| "scan_days pageDate latest (d # rest) =
     (let latest1 = (case latest of None \<Rightarrow> d | Some l \<Rightarrow> l) in
      if day_date d = pageDate then (Some d, True)
      else if num_gt (day d) (day latest1) then scan_days pageDate (Some d) rest
      else scan_days pageDate (Some latest1) rest)"

text \<open>The outer loop over the months (lines 662-694): it ends at the first month that matches.\<close>

fun find_latest :: "ReportMonths \<Rightarrow> string \<Rightarrow> DateType \<Rightarrow> found option \<times> bool" where
  "find_latest [] pageDate pageType = (None, False)"
| "find_latest (m # rest) pageDate pageType =
     (if month_date m =
           ToString (index (split (CHR ''-'') pageDate) 0) @ ''-''
             @ ToString (index (split (CHR ''-'') pageDate) 1)
      then (if pageType = Month then (Some (FoundMonth m), True)
            else (case scan_days pageDate None (days m) of
                    (latest, foundExact) \<Rightarrow> (map_option FoundDay latest, foundExact)))
      else find_latest rest pageDate pageType)"

text \<open>Lines 695-709: adopt the fallback when the URL gave no date, then change to the date.\<close>

definition resolve_date :: "page \<Rightarrow> page" where
  "resolve_date s =
     (case find_latest (Dates s) (PageDate s) (PageType s) of (latest, foundExact) \<Rightarrow>
        let (s1, foundExact1) =
              (if urlDate s = None \<and> \<not> foundExact
               then (case latest of
                       Some l \<Rightarrow> (s \<lparr> PageDate := found_date l \<rparr>, True)
                     | None \<Rightarrow>
                         (console_error [''Unable to find any records for this month.''] s,
                          foundExact))
               else (s, foundExact))
        in (case latest of
              Some l \<Rightarrow>
                if foundExact1 then ChangeDate (found_date l) s1
                else console_error
                       [''Unable to find given provided date. '' @ [CHR 0x27] @ PageDate s1
                          @ [CHR 0x27]] s1
            | None \<Rightarrow>
                console_error
                  [''Unable to find given provided date. '' @ [CHR 0x27] @ PageDate s1
                     @ [CHR 0x27]] s1))"

text \<open>The dates pipeline of \<^verbatim>\<open>pageLoad\<close> (lines 637-720).\<close>

definition dates_then :: "json \<Rightarrow> page \<Rightarrow> page option" where
  "dates_then result s =
     (let s0 = console_error (snd (ValidateResponse result api_dates)) s in
      if \<not> valid_response result api_dates
      then Some (console_error [''Invalid api response from date endpoint''] s0)
      else
        (case as_dates result of
           None \<Rightarrow> None
         | Some r \<Rightarrow>
             let s1 = s0 \<lparr> Dates := ProcessDates r \<rparr>;
                 s2 = skeletons Hidden SkDates (sink [DatesList (Dates s1)] s1)
             in Some (resolve_date s2)))"

fun dates_settle :: "outcome \<Rightarrow> page \<Rightarrow> page option" where
  "dates_settle FetchRejected s =
     Some (skeletons Error SkDates (console_error [''Error requesting report dates''] s))"
| "dates_settle JsonRejected s =
     Some (skeletons Error SkDates (console_error [''Unable to parse report dates''] s))"
| "dates_settle (Body result) s = dates_then result s"

subsection \<open>Download, and the events of a session\<close>

definition download :: "page \<Rightarrow> page" where
  "download s =
     (if flagLoading s \<noteq> Some 0
      then console_error [''Data has no yet loaded, cancelling download.''] s
      else s \<lparr> downloads := downloads s
                 @ (if HasEnergyData s then [''api/downloads/energy/'' @ PageDate s] else [])
                 @ (if HasBidData s then [''api/downloads/bids/'' @ PageDate s] else []) \<rparr>)"

text \<open>
  One event of the single-threaded session: a navigation, the settlement of the request at
  position \<open>i\<close> of those in flight, or a click on the download button. \<open>None\<close>: no such
  request, or a body outside the typed responses.
\<close>

datatype event = Navigate string | Settle nat outcome | Download

fun step :: "event \<Rightarrow> page \<Rightarrow> page option" where
  "step (Navigate date) s = Some (ChangeDate date s)"
| "step Download s = Some (download s)"
| "step (Settle i out) s =
     (if i < length (requests s) then
        (let s1 = s \<lparr> requests := take i (requests s) @ drop (Suc i) (requests s) \<rparr> in
         case fst (requests s ! i) of
           api_energy \<Rightarrow> energy_settle out s1
         | api_bids \<Rightarrow> bids_settle out s1
         | api_dates \<Rightarrow> dates_settle out s1)
      else None)"

fun run :: "event list \<Rightarrow> page \<Rightarrow> page option" where
  "run [] s = Some s"
| "run (e # es) s = (case step e s of None \<Rightarrow> None | Some s1 \<Rightarrow> run es s1)"

text \<open>
  A page for the examples: nothing loaded, nothing in flight, every skeleton visible as
  \<^verbatim>\<open>pageLoad\<close> sets them (lines 586-595).
\<close>

definition blank_page :: page where
  "blank_page =
     \<lparr> PageDate = ''2021-07-22'', PageType = Day, HasBidData = False, HasEnergyData = False,
       flagLoading = None, Dates = [], Energy = None, Bids = None,
       skeleton = (\<lambda>ty. Visible), buttonLoading = False, overlay = False,
       title = [], href = ''http://localhost/'', docTitle = [],
       rendered = [], console = [], requests = [], downloads = [], urlDate = None \<rparr>"

text \<open>The month of the examples: 2021-07 with reports for the days 5 and 20.\<close>

definition july_2021 :: ReportMonth where
  "july_2021 =
     \<lparr> days = [\<lparr> day_date = ''2021-07-05'', day = Num 5 \<rparr>,
                \<lparr> day_date = ''2021-07-20'', day = Num 20 \<rparr>],
       month = Num 7, year = Num 2021, month_date = ''2021-07'', name = Some ''July'' \<rparr>"

section \<open>Response validation: what the validator lets through\<close>

text \<open>
  In the \<^verbatim>\<open>bids\<close> and \<^verbatim>\<open>energy\<close> cases the checks on the rows sit in \<^verbatim>\<open>forEach\<close> callbacks, and
  \<^verbatim>\<open>return false\<close> leaves the callback only: once \<^verbatim>\<open>data\<close> is an array (and \<^verbatim>\<open>carbonRate\<close> a
  mapping of numbers) the verdict is \<^verbatim>\<open>true\<close>, whatever the rows are.
\<close>

lemma bids_data_array_accepted:
  "valid_response (JObj [(''data'', JArr elements)]) api_bids"
  by (simp add: valid_response_def ValidateResponse_def)

lemma energy_data_array_accepted:
  "valid_response (JObj [(''carbonRate'', JObj []), (''data'', JArr elements)]) api_energy"
  by (simp add: valid_response_def ValidateResponse_def)

text \<open>The violated rule is logged all the same.\<close>

lemma bids_row_violation_logged:
  "ValidateResponse (JObj [(''data'', JArr [JNum 5, JArr [JNull]])]) api_bids
     = (True, [''Bid data array does not contain arrays.'',
               ''Bid data is not numeric or strings.''])"
  by code_simp

text \<open>
  C2. The validator is to return false when a structural condition is violated. It returns
  true for a bids body whose \<^verbatim>\<open>data\<close> holds an element that is not a sequence
  (\<^verbatim>\<open>{"data":[5]}\<close>) or a row holding \<^verbatim>\<open>null\<close> (\<^verbatim>\<open>{"data":[[null]]}\<close>), and for an energy body
  with a row whose element 0 is a number (\<^verbatim>\<open>[7]\<close>) or whose element 1 is a string
  (\<^verbatim>\<open>[null,"x"]\<close>).
\<close>

theorem ValidateResponse_accepts_malformed_rows:
  "valid_response (JObj [(''data'', JArr [JNum 5])]) api_bids
   \<and> valid_response (JObj [(''data'', JArr [JArr [JNull]])]) api_bids
   \<and> valid_response
         (JObj [(''carbonRate'', JObj []), (''data'', JArr [JArr [JNum 7]])]) api_energy
   \<and> valid_response
         (JObj [(''carbonRate'', JObj []), (''data'', JArr [JArr [JNull, JStr ''x'']])])
         api_energy"
  by (simp add: valid_response_def ValidateResponse_def)

text \<open>The conditions checked outside the callbacks do decide the verdict.\<close>

lemma bids_data_not_array_rejected:
  "\<not> valid_response (JObj [(''data'', JStr ''not-an-array'')]) api_bids"
  by (simp add: valid_response_def ValidateResponse_def)

lemma energy_empty_data_accepted:
  "valid_response (JObj [(''carbonRate'', JObj [(''a'', JNum 1)]), (''data'', JArr [])]) api_energy"
  by (simp add: valid_response_def ValidateResponse_def)

section \<open>Validation failure in the pipelines of ChangeDate\<close>

text \<open>
  The inner \<^verbatim>\<open>then\<close> of either pipeline answers a failed validation with two console lines
  and \<^verbatim>\<open>return\<close>: nothing is thrown, so the \<^verbatim>\<open>catch\<close> beside it, which is where the flag is
  cleared, the card emptied and the skeleton set to \<open>Error\<close>, does not run.
\<close>

lemma energy_then_invalid:
  "\<not> valid_response result api_energy \<Longrightarrow>
   energy_then result s =
     Some (console_error [''Invalid api response from energy endpoint'']
             (console_error (snd (ValidateResponse result api_energy)) s))"
  by (simp add: energy_then_def Let_def)

lemma bids_then_invalid:
  "\<not> valid_response result api_bids \<Longrightarrow>
   bids_then result s =
     Some (console_error [''Invalid api response from bids endpoint'']
             (console_error (snd (ValidateResponse result api_bids)) s))"
  by (simp add: bids_then_def Let_def)

lemma markLoaded_fields [simp]:
  "HasEnergyData (markLoaded s) = HasEnergyData s"
  "HasBidData (markLoaded s) = HasBidData s"
  "skeleton (markLoaded s) = skeleton s"
  "rendered (markLoaded s) = rendered s"
  "PageDate (markLoaded s) = PageDate s"
  "PageType (markLoaded s) = PageType s"
  "requests (markLoaded s) = requests s"
  "flagLoading (markLoaded s) = map_option (\<lambda>n. n - 1) (flagLoading s)"
  by (simp_all add: markLoaded_def Let_def)

lemma console_error_fields [simp]:
  "HasEnergyData (console_error m s) = HasEnergyData s"
  "HasBidData (console_error m s) = HasBidData s"
  "skeleton (console_error m s) = skeleton s"
  "rendered (console_error m s) = rendered s"
  "PageDate (console_error m s) = PageDate s"
  "PageType (console_error m s) = PageType s"
  "requests (console_error m s) = requests s"
  "flagLoading (console_error m s) = flagLoading s"
  by (simp_all add: console_error_def)

lemma energy_invalid_leaves_section:
  assumes "\<not> valid_response result api_energy"
  shows "\<exists>s'. energy_settle (Body result) s = Some s'
           \<and> HasEnergyData s' = HasEnergyData s \<and> skeleton s' = skeleton s
           \<and> rendered s' = rendered s"
  using assms by (simp add: energy_then_invalid)

lemma bids_invalid_leaves_section:
  assumes "\<not> valid_response result api_bids"
  shows "\<exists>s'. bids_settle (Body result) s = Some s'
           \<and> HasBidData s' = HasBidData s \<and> skeleton s' = skeleton s
           \<and> rendered s' = rendered s"
  using assms by (simp add: bids_then_invalid)

text \<open>The sibling paths do what the claim says: a body that is not JSON, a rejected fetch.\<close>

lemma energy_failure_paths:
  "energy_settle JsonRejected s = Some s1 \<Longrightarrow>
     \<not> HasEnergyData s1 \<and> skeleton s1 SkEnergy = Error \<and> rendered s1 = rendered s @ [CarbonCard None]"
  "energy_settle FetchRejected s = Some s2 \<Longrightarrow>
     \<not> HasEnergyData s2 \<and> skeleton s2 SkEnergy = Error \<and> rendered s2 = rendered s @ [CarbonCard None]"
  by (auto simp: energy_catch_def energy_rejected_def skeletons_def sink_def console_error_def)

lemma bids_failure_paths:
  "bids_settle JsonRejected s = Some s1 \<Longrightarrow>
     \<not> HasBidData s1 \<and> skeleton s1 SkMarket = Error \<and> rendered s1 = rendered s @ [ProfitCard None]"
  "bids_settle FetchRejected s = Some s2 \<Longrightarrow>
     \<not> HasBidData s2 \<and> skeleton s2 SkMarket = Error \<and> rendered s2 = rendered s @ [ProfitCard None]"
  by (auto simp: bids_catch_def bids_rejected_def skeletons_def sink_def console_error_def)

text \<open>
  C1. After a payload that fails \<^verbatim>\<open>ValidateResponse\<close> the flag is to be false, the card
  rendered with the null aggregate and the section in \<open>Error\<close>. On the page below, bids
  for 2021-07-22 load, then the user moves to 2021-07-23, whose bids body is
  \<^verbatim>\<open>{"data":"not-an-array"}\<close> and whose energy body is \<^verbatim>\<open>null\<close>: \<open>HasBidData\<close> stays true, neither
  card is rendered with \<open>None\<close>, the market section stays \<open>Hidden\<close> and the energy section
  \<open>Visible\<close>; no section is in \<open>Error\<close>.
\<close>

theorem validation_failure_not_handled:
  "map_option
     (\<lambda>s. (HasBidData s, skeleton s SkMarket, ProfitCard None \<in> set (rendered s),
           skeleton s SkEnergy, CarbonCard None \<in> set (rendered s), flagLoading s))
     (run [Navigate ''2021-07-22'',
           Settle 1 (Body (JObj [(''data'',
              JArr [JArr [JStr ''2021-07-22'', JNum 0, JStr ''SELL'', JNum 10, JNum 50]])])),
           Navigate ''2021-07-23'',
           Settle 2 (Body (JObj [(''data'', JStr ''not-an-array'')])),
           Settle 1 (Body JNull)]
        blank_page)
   = Some (True, Hidden, False, Visible, False, Some 0)"
  by code_simp

section \<open>The date check\<close>

text \<open>A rejected date changes nothing but the console: no page variable, no request.\<close>

lemma ChangeDate_rejected:
  "\<not> ValidateDate date \<Longrightarrow>
   ChangeDate date s = console_error [''Invalid Date from JavaScript: '' @ date] s"
  by (simp add: ChangeDate_def)

lemma ChangeDate_rejected_state:
  assumes "\<not> ValidateDate date"
  shows "PageDate (ChangeDate date s) = PageDate s"
    and "PageType (ChangeDate date s) = PageType s"
    and "requests (ChangeDate date s) = requests s"
    and "flagLoading (ChangeDate date s) = flagLoading s"
  using assms by (simp_all add: ChangeDate_rejected)

lemma ValidateDate_examples:
  "ValidateDate ''2021-07''" "ValidateDate ''2021-07-22''" "ValidateDate ''2021-02-31''"
  "\<not> ValidateDate ''2021-13''" "\<not> ValidateDate ''2021-07-32''" "\<not> ValidateDate ''2021''"
  "\<not> ValidateDate ''21-07-22''" "\<not> ValidateDate ''2021-07-22-01''"
  by code_simp+

lemma ChangeDate_month_13:
  "PageDate (ChangeDate ''2021-13'' blank_page) = PageDate blank_page
   \<and> requests (ChangeDate ''2021-13'' blank_page) = []"
  by code_simp

text \<open>
  The value checks compare \<^verbatim>\<open>+split[1] > 12\<close> and \<^verbatim>\<open>+split[2] > 31\<close>. A field that is not a
  number converts to \<^verbatim>\<open>NaN\<close>, for which the comparison is false, and nothing checks a lower
  bound; a field may also have one character.
\<close>

lemma to_number_examples:
  "to_number ''ef'' = NaN" "to_number ''00'' = Num 0" "to_number ''7'' = Num 7"
  "to_number ''12'' = Num 12" "to_number ''-1'' = Num (- 1)"
  by code_simp+

text \<open>
  C3. The check is to accept exactly the strings \<^verbatim>\<open>YYYY-MM\<close> and \<^verbatim>\<open>YYYY-MM-DD\<close> with month
  1-12 and day 1-31, and \<^verbatim>\<open>ChangeDate\<close> to reject every other string without touching the
  page. The check accepts \<^verbatim>\<open>abcd-ef\<close>, \<^verbatim>\<open>2021-00\<close> and \<^verbatim>\<open>2021-07-00\<close>, and
  \<^verbatim>\<open>ChangeDate("abcd-ef")\<close> makes \<^verbatim>\<open>abcd-ef\<close> the page date, of month granularity, and
  sends both requests for it.
\<close>

theorem ValidateDate_accepts_non_dates:
  "ValidateDate ''abcd-ef'' \<and> ValidateDate ''2021-00'' \<and> ValidateDate ''2021-07-00''
   \<and> PageDate (ChangeDate ''abcd-ef'' blank_page) = ''abcd-ef''
   \<and> PageType (ChangeDate ''abcd-ef'' blank_page) = Month
   \<and> requests (ChangeDate ''abcd-ef'' blank_page)
       = [(api_energy, ''abcd-ef''), (api_bids, ''abcd-ef'')]"
  by code_simp

section \<open>ProcessBids\<close>






lemma Sell_neq_Buy: "Sell \<noteq> Buy"
  by (simp add: Sell_def Buy_def)




text \<open>
  A row whose type is neither \<^verbatim>\<open>SELL\<close> nor \<^verbatim>\<open>BUY\<close> counts as a purchase in the profit and in
  the total volume only: the equation between the three volumes is about bids of the two
  types of \<^verbatim>\<open>BidType\<close>.
\<close>

lemma ProcessBids_other_type:
  "totalVolume (ProcessBids [(''2021-07-22'', 0, ''HOLD'', 10, 50)]) = 10
   \<and> volumeSold (ProcessBids [(''2021-07-22'', 0, ''HOLD'', 10, 50)]) = 0
   \<and> volumeBrought (ProcessBids [(''2021-07-22'', 0, ''HOLD'', 10, 50)]) = 0
   \<and> profit (ProcessBids [(''2021-07-22'', 0, ''HOLD'', 10, 50)]) = - 500"
  by (simp add: ProcessBids_def bids_cb_def Sell_def Buy_def)



section \<open>ProcessEnergy\<close>

text \<open>The loop, from any accumulator: each array after the rows \<open>d\<close>.\<close>

lemma foldl_energy_cb_inputs:
  "timesE (foldl (energy_cb r) acc d)
     = timesE acc @ map (\<lambda>(e0, e1, e2, e3, e4, e5, e6). e0) d"
  "predictedBuildingDemand (foldl (energy_cb r) acc d)
     = predictedBuildingDemand acc @ map (\<lambda>(e0, e1, e2, e3, e4, e5, e6). e1) d"
  "predictedSolarGeneration (foldl (energy_cb r) acc d)
     = predictedSolarGeneration acc @ map (\<lambda>(e0, e1, e2, e3, e4, e5, e6). e2) d"
  "predictedWindGeneration (foldl (energy_cb r) acc d)
     = predictedWindGeneration acc @ map (\<lambda>(e0, e1, e2, e3, e4, e5, e6). e3) d"
  "realBuildingDemand (foldl (energy_cb r) acc d)
     = realBuildingDemand acc @ map (\<lambda>(e0, e1, e2, e3, e4, e5, e6). e4) d"
  "realSolarGeneration (foldl (energy_cb r) acc d)
     = realSolarGeneration acc @ map (\<lambda>(e0, e1, e2, e3, e4, e5, e6). e5) d"
  "realWindGeneration (foldl (energy_cb r) acc d)
     = realWindGeneration acc @ map (\<lambda>(e0, e1, e2, e3, e4, e5, e6). e6) d"
  by (induction d arbitrary: acc;
      auto simp: energy_cb_def Let_def split: option.splits)+

lemma foldl_energy_cb_predicted:
  "predictedTotalGeneration (foldl (energy_cb r) acc d)
     = predictedTotalGeneration acc @ map (\<lambda>(e0, e1, e2, e3, e4, e5, e6). e2 + e3) d"
  "predictedNetGeneration (foldl (energy_cb r) acc d)
     = predictedNetGeneration acc @ map (\<lambda>(e0, e1, e2, e3, e4, e5, e6). e2 + e3 - e1) d"
  by (induction d arbitrary: acc;
      auto simp: energy_cb_def Let_def split: option.splits)+

lemma foldl_energy_cb_real:
  "realTotalGeneration (foldl (energy_cb r) acc d)
     = realTotalGeneration acc @ map (\<lambda>(e0, e1, e2, e3, e4, e5, e6).
         case (e5, e6) of (Some solar, Some wind) \<Rightarrow> Some (solar + wind) | _ \<Rightarrow> None) d"
  "realNetGeneration (foldl (energy_cb r) acc d)
     = realNetGeneration acc @ map (\<lambda>(e0, e1, e2, e3, e4, e5, e6).
         case (e5, e6, e4) of
           (Some solar, Some wind, Some demand) \<Rightarrow> Some (solar + wind - demand)
         | _ \<Rightarrow> None) d"
  by (induction d arbitrary: acc;
      auto simp: energy_cb_def Let_def split: option.splits)+

lemma ProcessEnergy_carbonRate: "carbonRate (ProcessEnergy d) = raw_carbonRate d"
proof -
  have "carbonRate (foldl (energy_cb r) acc rows) = carbonRate acc" for r acc rows
    by (induction rows arbitrary: acc)
       (auto simp: energy_cb_def Let_def split: option.splits)
  then show ?thesis by (simp add: ProcessEnergy_def)
qed

text \<open>All eleven arrays have one entry for each row.\<close>

lemma ProcessEnergy_lengths:
  "length (timesE (ProcessEnergy d)) = length (raw_data d)"
  "length (predictedBuildingDemand (ProcessEnergy d)) = length (raw_data d)"
  "length (predictedSolarGeneration (ProcessEnergy d)) = length (raw_data d)"
  "length (predictedWindGeneration (ProcessEnergy d)) = length (raw_data d)"
  "length (realBuildingDemand (ProcessEnergy d)) = length (raw_data d)"
  "length (realSolarGeneration (ProcessEnergy d)) = length (raw_data d)"
  "length (realWindGeneration (ProcessEnergy d)) = length (raw_data d)"
  "length (predictedTotalGeneration (ProcessEnergy d)) = length (raw_data d)"
  "length (realTotalGeneration (ProcessEnergy d)) = length (raw_data d)"
  "length (predictedNetGeneration (ProcessEnergy d)) = length (raw_data d)"
  "length (realNetGeneration (ProcessEnergy d)) = length (raw_data d)"
  by (simp_all add: ProcessEnergy_def foldl_energy_cb_inputs foldl_energy_cb_predicted
      foldl_energy_cb_real)

text \<open>Row \<open>i\<close> of the result, from row \<open>i\<close> of the response.\<close>

lemma ProcessEnergy_row:
  assumes "i < length (raw_data d)" and "raw_data d ! i = (e0, e1, e2, e3, e4, e5, e6)"
  shows "timesE (ProcessEnergy d) ! i = e0"
    and "predictedBuildingDemand (ProcessEnergy d) ! i = e1"
    and "predictedSolarGeneration (ProcessEnergy d) ! i = e2"
    and "predictedWindGeneration (ProcessEnergy d) ! i = e3"
    and "realBuildingDemand (ProcessEnergy d) ! i = e4"
    and "realSolarGeneration (ProcessEnergy d) ! i = e5"
    and "realWindGeneration (ProcessEnergy d) ! i = e6"
    and "predictedTotalGeneration (ProcessEnergy d) ! i = e2 + e3"
    and "predictedNetGeneration (ProcessEnergy d) ! i = e2 + e3 - e1"
    and "realTotalGeneration (ProcessEnergy d) ! i
           = (case (e5, e6) of (Some solar, Some wind) \<Rightarrow> Some (solar + wind) | _ \<Rightarrow> None)"
    and "realNetGeneration (ProcessEnergy d) ! i
           = (case (e5, e6, e4) of
                (Some solar, Some wind, Some demand) \<Rightarrow> Some (solar + wind - demand)
              | _ \<Rightarrow> None)"
  using assms
  by (simp_all add: ProcessEnergy_def foldl_energy_cb_inputs foldl_energy_cb_predicted
      foldl_energy_cb_real)

text \<open>
  C5. For every row \<open>i\<close> of an energy response: the predicted total is predicted solar plus
  predicted wind, and the predicted net is that total minus the predicted demand; the
  real total is null exactly when real solar or real wind is null, and is their sum
  otherwise; the real net is null exactly when the real total or the real demand is null,
  and is the real total minus the real demand otherwise.
\<close>

theorem ProcessEnergy_null_propagation:
  assumes "i < length (raw_data d)"
  shows "predictedTotalGeneration (ProcessEnergy d) ! i
           = predictedSolarGeneration (ProcessEnergy d) ! i
             + predictedWindGeneration (ProcessEnergy d) ! i
       \<and> predictedNetGeneration (ProcessEnergy d) ! i
           = predictedTotalGeneration (ProcessEnergy d) ! i
             - predictedBuildingDemand (ProcessEnergy d) ! i
       \<and> (realTotalGeneration (ProcessEnergy d) ! i = None
            \<longleftrightarrow> realSolarGeneration (ProcessEnergy d) ! i = None
                \<or> realWindGeneration (ProcessEnergy d) ! i = None)
       \<and> realTotalGeneration (ProcessEnergy d) ! i
           = (case (realSolarGeneration (ProcessEnergy d) ! i,
                    realWindGeneration (ProcessEnergy d) ! i) of
                (Some solar, Some wind) \<Rightarrow> Some (solar + wind)
              | _ \<Rightarrow> None)
       \<and> (realNetGeneration (ProcessEnergy d) ! i = None
            \<longleftrightarrow> realTotalGeneration (ProcessEnergy d) ! i = None
                \<or> realBuildingDemand (ProcessEnergy d) ! i = None)
       \<and> realNetGeneration (ProcessEnergy d) ! i
           = (case (realTotalGeneration (ProcessEnergy d) ! i,
                    realBuildingDemand (ProcessEnergy d) ! i) of
                (Some tot, Some demand) \<Rightarrow> Some (tot - demand)
              | _ \<Rightarrow> None)
       \<and> (timesE (ProcessEnergy d) ! i, predictedBuildingDemand (ProcessEnergy d) ! i,
          predictedSolarGeneration (ProcessEnergy d) ! i,
          predictedWindGeneration (ProcessEnergy d) ! i,
          realBuildingDemand (ProcessEnergy d) ! i, realSolarGeneration (ProcessEnergy d) ! i,
          realWindGeneration (ProcessEnergy d) ! i) = raw_data d ! i"
proof -
  obtain e0 e1 e2 e3 e4 e5 e6 where row: "raw_data d ! i = (e0, e1, e2, e3, e4, e5, e6)"
    by (metis prod_cases7)
  show ?thesis
    using ProcessEnergy_row [OF assms row] row
    by (simp split: option.splits)
qed

text \<open>
  The example of the specification: the row
  \<^verbatim>\<open>["2021-07-22 00:00:00+00:00",100,40,60,null,35,55]\<close> gives predicted total 100,
  predicted net 0, real total 90 and no real net.
\<close>

theorem ProcessEnergy_null_propagation_witness:
  "(0 :: nat) < length (raw_data
      \<lparr> raw_data = [(Some ''2021-07-22 00:00:00+00:00'', 100, 40, 60, None, Some 35, Some 55)],
        raw_carbonRate = [(''2021-07-22'', 1 / 5)] \<rparr>)
   \<and> predictedTotalGeneration (ProcessEnergy
      \<lparr> raw_data = [(Some ''2021-07-22 00:00:00+00:00'', 100, 40, 60, None, Some 35, Some 55)],
        raw_carbonRate = [(''2021-07-22'', 1 / 5)] \<rparr>) ! 0 = 100
   \<and> predictedNetGeneration (ProcessEnergy
      \<lparr> raw_data = [(Some ''2021-07-22 00:00:00+00:00'', 100, 40, 60, None, Some 35, Some 55)],
        raw_carbonRate = [(''2021-07-22'', 1 / 5)] \<rparr>) ! 0 = 0
   \<and> realTotalGeneration (ProcessEnergy
      \<lparr> raw_data = [(Some ''2021-07-22 00:00:00+00:00'', 100, 40, 60, None, Some 35, Some 55)],
        raw_carbonRate = [(''2021-07-22'', 1 / 5)] \<rparr>) ! 0 = Some 90
   \<and> realNetGeneration (ProcessEnergy
      \<lparr> raw_data = [(Some ''2021-07-22 00:00:00+00:00'', 100, 40, 60, None, Some 35, Some 55)],
        raw_carbonRate = [(''2021-07-22'', 1 / 5)] \<rparr>) ! 0 = None"
proof -
  let ?d = "\<lparr> raw_data = [(Some ''2021-07-22 00:00:00+00:00'', 100, 40, 60, None, Some 35, Some 55)],
             raw_carbonRate = [(''2021-07-22'', 1 / 5 :: rat)] \<rparr>"
  have h: "(0 :: nat) < length (raw_data ?d)" by simp
  have rows: "realSolarGeneration (ProcessEnergy ?d) ! 0 = Some 35"
    "realWindGeneration (ProcessEnergy ?d) ! 0 = Some 55"
    "realBuildingDemand (ProcessEnergy ?d) ! 0 = None"
    "predictedSolarGeneration (ProcessEnergy ?d) ! 0 = 40"
    "predictedWindGeneration (ProcessEnergy ?d) ! 0 = 60"
    "predictedBuildingDemand (ProcessEnergy ?d) ! 0 = 100"
    by (simp_all add: ProcessEnergy_def energy_cb_def Let_def)
  show ?thesis
    using h ProcessEnergy_null_propagation [OF h] rows
    by simp
qed

section \<open>The carbon accumulators of ProcessEnergy\<close>

text \<open>
  The rate of a row, as the callback finds it, and whether the row leaves the lookup
  without a rate: its timestamp is a string whose first ten characters are no key of
  \<^verbatim>\<open>carbonRate\<close>.
\<close>

lemma NaN_absorbs [simp]: "num_add NaN x = NaN" "num_add x NaN = NaN" "num_mul x NaN = NaN"
  by (cases x; simp)+

lemma energy_cb_predictedCarbonSaved:
  "predictedCarbonSaved (energy_cb r acc (e0, e1, e2, e3, e4, e5, e6))
     = num_add (predictedCarbonSaved acc)
         (num_mul (Num (e2 + e3 - e1))
            (ToNumber (case e0 of Some s \<Rightarrow> map_of r (slice 0 10 s) | None \<Rightarrow> Some 0)))"
  by (simp add: energy_cb_def Let_def split: option.splits)

lemma energy_cb_realCarbonSaved:
  "realCarbonSaved (energy_cb r acc (e0, e1, e2, e3, e4, e5, e6))
     = (case (e5, e6, e4) of
          (Some solar, Some wind, Some demand) \<Rightarrow>
            num_add (realCarbonSaved acc)
              (num_mul (Num (solar + wind - demand))
                 (ToNumber (case e0 of Some s \<Rightarrow> map_of r (slice 0 10 s) | None \<Rightarrow> Some 0)))
        | _ \<Rightarrow> realCarbonSaved acc)"
  by (simp add: energy_cb_def Let_def split: option.splits)

text \<open>Once \<^verbatim>\<open>NaN\<close>, an accumulator stays \<^verbatim>\<open>NaN\<close> to the end of the loop.\<close>

lemma predictedCarbonSaved_NaN_stays:
  "predictedCarbonSaved acc = NaN \<Longrightarrow> predictedCarbonSaved (foldl (energy_cb r) acc d) = NaN"
proof (induction d arbitrary: acc)
  case Nil
  then show ?case by simp
next
  case (Cons row d)
  obtain e0 e1 e2 e3 e4 e5 e6 where row: "row = (e0, e1, e2, e3, e4, e5, e6)"
    by (metis prod_cases7)
  have "predictedCarbonSaved (energy_cb r acc row) = NaN"
    using Cons.prems by (simp add: row energy_cb_predictedCarbonSaved)
  then show ?case using Cons.IH by simp
qed

lemma realCarbonSaved_NaN_stays:
  "realCarbonSaved acc = NaN \<Longrightarrow> realCarbonSaved (foldl (energy_cb r) acc d) = NaN"
proof (induction d arbitrary: acc)
  case Nil
  then show ?case by simp
next
  case (Cons row d)
  obtain e0 e1 e2 e3 e4 e5 e6 where row: "row = (e0, e1, e2, e3, e4, e5, e6)"
    by (metis prod_cases7)
  have "realCarbonSaved (energy_cb r acc row) = NaN"
    using Cons.prems by (simp add: row energy_cb_realCarbonSaved split: option.splits)
  then show ?case using Cons.IH by simp
qed

lemma predictedCarbonSaved_missing_rate:
  assumes "(Some ts, e1, e2, e3, e4, e5, e6) \<in> set d" and "map_of r (slice 0 10 ts) = None"
  shows "predictedCarbonSaved (foldl (energy_cb r) acc d) = NaN"
  using assms(1)
proof (induction d arbitrary: acc)
  case Nil
  then show ?case by simp
next
  case (Cons row d)
  show ?case
  proof (cases "row = (Some ts, e1, e2, e3, e4, e5, e6)")
    case True
    have "predictedCarbonSaved (energy_cb r acc row) = NaN"
      using assms(2) by (simp add: True energy_cb_predictedCarbonSaved)
    then show ?thesis by (simp add: predictedCarbonSaved_NaN_stays)
  next
    case False
    then have "(Some ts, e1, e2, e3, e4, e5, e6) \<in> set d" using Cons.prems by simp
    then show ?thesis using Cons.IH by simp
  qed
qed

lemma realCarbonSaved_missing_rate:
  assumes "(Some ts, e1, e2, e3, Some demand, Some solar, Some wind) \<in> set d"
    and "map_of r (slice 0 10 ts) = None"
  shows "realCarbonSaved (foldl (energy_cb r) acc d) = NaN"
  using assms(1)
proof (induction d arbitrary: acc)
  case Nil
  then show ?case by simp
next
  case (Cons row d)
  show ?case
  proof (cases "row = (Some ts, e1, e2, e3, Some demand, Some solar, Some wind)")
    case True
    have "realCarbonSaved (energy_cb r acc row) = NaN"
      using assms(2) by (simp add: True energy_cb_realCarbonSaved)
    then show ?thesis by (simp add: realCarbonSaved_NaN_stays)
  next
    case False
    then have "(Some ts, e1, e2, e3, Some demand, Some solar, Some wind) \<in> set d"
      using Cons.prems by simp
    then show ?thesis using Cons.IH by simp
  qed
qed

text \<open>
  Conversely the predicted accumulator is a number when every row finds a rate: a
  timestamp that is not a string takes the default 0, a string one its day's rate.
\<close>

lemma predictedCarbonSaved_number:
  assumes "\<forall>row \<in> set d. \<forall>ts. fst row = Some ts \<longrightarrow> map_of r (slice 0 10 ts) \<noteq> None"
    and "predictedCarbonSaved acc \<noteq> NaN"
  shows "predictedCarbonSaved (foldl (energy_cb r) acc d) \<noteq> NaN"
  using assms
proof (induction d arbitrary: acc)
  case Nil
  then show ?case by simp
next
  case (Cons row d)
  obtain e0 e1 e2 e3 e4 e5 e6 where row: "row = (e0, e1, e2, e3, e4, e5, e6)"
    by (metis prod_cases7)
  obtain a where a: "predictedCarbonSaved acc = Num a"
    using Cons.prems(2) by (cases "predictedCarbonSaved acc") auto
  have "predictedCarbonSaved (energy_cb r acc row) \<noteq> NaN"
    using Cons.prems(1) a
    by (cases e0) (auto simp: row energy_cb_predictedCarbonSaved)
  then show ?case using Cons.IH Cons.prems(1) by simp
qed

lemma null_timestamp_rate_zero:
  "predictedCarbonSaved (energy_cb r acc (None, e1, e2, e3, e4, e5, e6))
     = num_add (predictedCarbonSaved acc) (Num 0)"
  by (simp add: energy_cb_predictedCarbonSaved)

text \<open>
  C9. A row whose timestamp is a string with no rate for its day makes
  \<open>predictedCarbonSaved\<close> \<^verbatim>\<open>NaN\<close>, whatever its predicted net, and \<open>realCarbonSaved\<close> too when
  its real net is computed (the three real values present); the default rate 0 is taken
  only by a row whose timestamp is not a string.
\<close>

theorem ProcessEnergy_missing_rate_NaN:
  assumes "(Some ts, e1, e2, e3, e4, e5, e6) \<in> set (raw_data d)"
    and "map_of (raw_carbonRate d) (slice 0 10 ts) = None"
  shows "predictedCarbonSaved (ProcessEnergy d) = NaN
       \<and> (e4 \<noteq> None \<and> e5 \<noteq> None \<and> e6 \<noteq> None \<longrightarrow> realCarbonSaved (ProcessEnergy d) = NaN)"
proof -
  have "predictedCarbonSaved (ProcessEnergy d) = NaN"
    using predictedCarbonSaved_missing_rate [OF assms] by (simp add: ProcessEnergy_def)
  moreover have "realCarbonSaved (ProcessEnergy d) = NaN"
    if present: "e4 \<noteq> None" "e5 \<noteq> None" "e6 \<noteq> None"
  proof -
    obtain demand solar wind where "e4 = Some demand" "e5 = Some solar" "e6 = Some wind"
      using present by auto
    then show ?thesis
      using realCarbonSaved_missing_rate [of ts e1 e2 e3 demand solar wind "raw_data d"
          "raw_carbonRate d"] assms
      by (simp add: ProcessEnergy_def)
  qed
  ultimately show ?thesis by simp
qed

text \<open>
  A body that \<^verbatim>\<open>ValidateResponse\<close> accepts, and that meets every rule stated for an energy
  response: \<^verbatim>\<open>{"carbonRate":{"2021-07-22":0.2},
  "data":[["2021-07-23 00:00:00+00:00",100,40,61,1,35,55]]}\<close>. The row is of the 23rd, the
  only rate of the 22nd.
\<close>

theorem ProcessEnergy_missing_rate_NaN_witness:
  "valid_response
     (JObj [(''carbonRate'', JObj [(''2021-07-22'', JNum (1 / 5))]),
            (''data'', JArr [JArr [JStr ''2021-07-23 00:00:00+00:00'', JNum 100, JNum 40,
                                   JNum 61, JNum 1, JNum 35, JNum 55]])])
     api_energy
   \<and> as_energy
       (JObj [(''carbonRate'', JObj [(''2021-07-22'', JNum (1 / 5))]),
              (''data'', JArr [JArr [JStr ''2021-07-23 00:00:00+00:00'', JNum 100, JNum 40,
                                     JNum 61, JNum 1, JNum 35, JNum 55]])])
     = Some \<lparr> raw_data = [(Some ''2021-07-23 00:00:00+00:00'', 100, 40, 61, Some 1, Some 35,
                            Some 55)],
              raw_carbonRate = [(''2021-07-22'', 1 / 5)] \<rparr>
   \<and> (Some ''2021-07-23 00:00:00+00:00'', 100, 40, 61, Some 1, Some 35, Some 55)
       \<in> set (raw_data
           \<lparr> raw_data = [(Some ''2021-07-23 00:00:00+00:00'', 100, 40, 61, Some 1, Some 35,
                          Some 55)],
             raw_carbonRate = [(''2021-07-22'', 1 / 5)] \<rparr>)
   \<and> map_of [(''2021-07-22'', 1 / 5 :: rat)] (slice 0 10 ''2021-07-23 00:00:00+00:00'') = None
   \<and> predictedCarbonSaved (ProcessEnergy
        \<lparr> raw_data = [(Some ''2021-07-23 00:00:00+00:00'', 100, 40, 61, Some 1, Some 35,
                       Some 55)],
          raw_carbonRate = [(''2021-07-22'', 1 / 5)] \<rparr>) = NaN
   \<and> realCarbonSaved (ProcessEnergy
        \<lparr> raw_data = [(Some ''2021-07-23 00:00:00+00:00'', 100, 40, 61, Some 1, Some 35,
                       Some 55)],
          raw_carbonRate = [(''2021-07-22'', 1 / 5)] \<rparr>) = NaN"
proof -
  let ?d = "\<lparr> raw_data = [(Some ''2021-07-23 00:00:00+00:00'', 100, 40, 61, Some 1, Some 35,
                            Some 55)],
             raw_carbonRate = [(''2021-07-22'', 1 / 5 :: rat)] \<rparr>"
  have h1: "(Some ''2021-07-23 00:00:00+00:00'', 100, 40, 61, Some 1, Some 35, Some 55)
              \<in> set (raw_data ?d)"
    by simp
  have h2: "map_of (raw_carbonRate ?d) (slice 0 10 ''2021-07-23 00:00:00+00:00'') = None"
    by (simp add: slice_def)
  have v: "valid_response
     (JObj [(''carbonRate'', JObj [(''2021-07-22'', JNum (1 / 5))]),
            (''data'', JArr [JArr [JStr ''2021-07-23 00:00:00+00:00'', JNum 100, JNum 40,
                                   JNum 61, JNum 1, JNum 35, JNum 55]])])
     api_energy"
    by (simp add: valid_response_def ValidateResponse_def)
  have c: "as_energy
       (JObj [(''carbonRate'', JObj [(''2021-07-22'', JNum (1 / 5))]),
              (''data'', JArr [JArr [JStr ''2021-07-23 00:00:00+00:00'', JNum 100, JNum 40,
                                     JNum 61, JNum 1, JNum 35, JNum 55]])])
     = Some ?d"
    by (simp add: as_energy_def)
  show ?thesis
    using v c h1 h2 ProcessEnergy_missing_rate_NaN [OF h1 h2]
    by (simp add: slice_def)
qed

section \<open>The loading counter\<close>

text \<open>\<^verbatim>\<open>ChangeDate\<close> writes 1 into the counter and \<^verbatim>\<open>markLoading\<close> adds 1: the old value is lost.\<close>

lemma ChangeDate_counter:
  assumes "ValidateDate date"
  shows "flagLoading (ChangeDate date s) = Some 2"
    and "requests (ChangeDate date s) = requests s @ [(api_energy, date), (api_bids, date)]"
    and "buttonLoading (ChangeDate date s)" and "overlay (ChangeDate date s)"
  using assms by (simp_all add: ChangeDate_def Let_def markLoading_def UpdatePage_def)

text \<open>What the inner \<^verbatim>\<open>then\<close> of a pipeline leaves alone.\<close>

lemma energy_then_frame:
  assumes "energy_then result s = Some s'"
  shows "flagLoading s' = flagLoading s \<and> requests s' = requests s
       \<and> buttonLoading s' = buttonLoading s \<and> overlay s' = overlay s"
  using assms
  by (auto simp: energy_then_def Let_def energy_catch_def skeletons_def sink_def
      console_error_def split: if_splits option.splits)

lemma bids_then_frame:
  assumes "bids_then result s = Some s'"
  shows "flagLoading s' = flagLoading s \<and> requests s' = requests s
       \<and> buttonLoading s' = buttonLoading s \<and> overlay s' = overlay s"
  using assms
  by (auto simp: bids_then_def Let_def skeletons_def sink_def console_error_def
      split: if_splits option.splits)

lemma markLoaded_zero:
  "flagLoading (markLoaded s) = Some 0 \<Longrightarrow> \<not> buttonLoading (markLoaded s) \<and> \<not> overlay (markLoaded s)"
  by (auto simp: markLoaded_def Let_def split: if_splits)

text \<open>Every way a pipeline can end runs \<^verbatim>\<open>markLoaded\<close> once.\<close>

lemma energy_settle_counter:
  assumes "energy_settle out s = Some s'"
  shows "flagLoading s' = map_option (\<lambda>n. n - 1) (flagLoading s)"
    and "requests s' = requests s"
    and "flagLoading s' = Some 0 \<Longrightarrow> \<not> buttonLoading s' \<and> \<not> overlay s'"
proof -
  obtain t where t: "s' = markLoaded t" "flagLoading t = flagLoading s" "requests t = requests s"
  proof (cases out)
    case FetchRejected
    then show ?thesis
      using assms that [of "skeletons Error SkEnergy (sink [CarbonCard None]
          ((console_error [''Error requesting energy data''] s) \<lparr> HasEnergyData := False \<rparr>))"]
      by (simp add: energy_rejected_def skeletons_def sink_def console_error_def)
  next
    case JsonRejected
    then show ?thesis
      using assms that [of "energy_catch s"]
      by (simp add: energy_catch_def skeletons_def sink_def console_error_def)
  next
    case (Body result)
    then obtain u where "energy_then result s = Some u" "s' = markLoaded u"
      using assms by auto
    then show ?thesis using that [of u] energy_then_frame [of result s u] by simp
  qed
  show "flagLoading s' = map_option (\<lambda>n. n - 1) (flagLoading s)" using t by simp
  show "requests s' = requests s" using t by simp
  show "flagLoading s' = Some 0 \<Longrightarrow> \<not> buttonLoading s' \<and> \<not> overlay s'"
    using t(1) markLoaded_zero by blast
qed

lemma bids_settle_counter:
  assumes "bids_settle out s = Some s'"
  shows "flagLoading s' = map_option (\<lambda>n. n - 1) (flagLoading s)"
    and "requests s' = requests s"
    and "flagLoading s' = Some 0 \<Longrightarrow> \<not> buttonLoading s' \<and> \<not> overlay s'"
proof -
  obtain t where t: "s' = markLoaded t" "flagLoading t = flagLoading s" "requests t = requests s"
  proof (cases out)
    case FetchRejected
    then show ?thesis
      using assms that [of "skeletons Error SkMarket (sink [ProfitCard None]
          ((console_error [''Error requesting bids''] s) \<lparr> HasBidData := False \<rparr>))"]
      by (simp add: bids_rejected_def skeletons_def sink_def console_error_def)
  next
    case JsonRejected
    then show ?thesis
      using assms that [of "bids_catch s"]
      by (simp add: bids_catch_def skeletons_def sink_def console_error_def)
  next
    case (Body result)
    then obtain u where "bids_then result s = Some u" "s' = markLoaded u"
      using assms by auto
    then show ?thesis using that [of u] bids_then_frame [of result s u] by simp
  qed
  show "flagLoading s' = map_option (\<lambda>n. n - 1) (flagLoading s)" using t by simp
  show "requests s' = requests s" using t by simp
  show "flagLoading s' = Some 0 \<Longrightarrow> \<not> buttonLoading s' \<and> \<not> overlay s'"
    using t(1) markLoaded_zero by blast
qed

text \<open>The settlement of one of the requests of \<^verbatim>\<open>ChangeDate\<close>, as an event.\<close>

lemma settle_counter:
  assumes "step (Settle i out) s = Some s'"
    and "\<forall>r \<in> set (requests s). fst r \<noteq> api_dates"
  shows "flagLoading s' = map_option (\<lambda>n. n - 1) (flagLoading s)"
    and "i < length (requests s)"
    and "requests s' = take i (requests s) @ drop (Suc i) (requests s)"
    and "flagLoading s' = Some 0 \<Longrightarrow> \<not> buttonLoading s' \<and> \<not> overlay s'"
proof -
  show i: "i < length (requests s)"
    using assms(1) by (simp split: if_splits)
  let ?s1 = "s \<lparr> requests := take i (requests s) @ drop (Suc i) (requests s) \<rparr>"
  have kind: "fst (requests s ! i) \<noteq> api_dates"
    using assms(2) i by simp
  have "energy_settle out ?s1 = Some s' \<or> bids_settle out ?s1 = Some s'"
    using assms(1) i kind by (cases "fst (requests s ! i)") (simp_all add: Let_def)
  then show "flagLoading s' = map_option (\<lambda>n. n - 1) (flagLoading s)"
    and "requests s' = take i (requests s) @ drop (Suc i) (requests s)"
    and "flagLoading s' = Some 0 \<Longrightarrow> \<not> buttonLoading s' \<and> \<not> overlay s'"
    using energy_settle_counter [of out ?s1 s'] bids_settle_counter [of out ?s1 s']
    by auto
qed

lemma settle_requests:
  assumes "step (Settle i out) s = Some s'"
    and "\<forall>r \<in> set (requests s). fst r \<noteq> api_dates"
  shows "\<forall>r \<in> set (requests s'). fst r \<noteq> api_dates"
    and "Suc (length (requests s')) = length (requests s)"
proof -
  have i: "i < length (requests s)"
    and r: "requests s' = take i (requests s) @ drop (Suc i) (requests s)"
    using settle_counter [OF assms] by simp_all
  show "\<forall>r \<in> set (requests s'). fst r \<noteq> api_dates"
    using assms(2) r by (auto dest: in_set_takeD in_set_dropD)
  show "Suc (length (requests s')) = length (requests s)"
    using i r by simp
qed

text \<open>
  C10. Two navigations, the second while both requests of the first are in flight, leave
  four requests and the counter at 2. After any two of them have settled, in any of the
  ways a pipeline can end, the counter is 0, the download button and the overlay are
  released and \<^verbatim>\<open>download\<close> is let through, with two requests still in flight; when those
  two have settled the counter is \<open>-2\<close>.
\<close>

theorem overlapping_navigation_counter:
  assumes "ValidateDate d1" and "ValidateDate d2" and "requests s = []"
    and "run [Navigate d1, Navigate d2, Settle i out1, Settle j out2] s = Some s'"
  shows "flagLoading (ChangeDate d2 (ChangeDate d1 s)) = Some 2
       \<and> length (requests (ChangeDate d2 (ChangeDate d1 s))) = 4
       \<and> flagLoading s' = Some 0 \<and> \<not> buttonLoading s' \<and> \<not> overlay s'
       \<and> length (requests s') = 2
       \<and> console (download s') = console s'
       \<and> (\<forall>k out3 l out4 s''.
            run [Settle k out3, Settle l out4] s' = Some s'' \<longrightarrow> flagLoading s'' = Some (- 2))"
proof -
  let ?s2 = "ChangeDate d2 (ChangeDate d1 s)"
  have f2: "flagLoading ?s2 = Some 2"
    using assms(2) by (rule ChangeDate_counter)
  have r2: "requests ?s2 = [(api_energy, d1), (api_bids, d1), (api_energy, d2), (api_bids, d2)]"
    using assms(1,2,3) by (simp add: ChangeDate_counter)
  have nd2: "\<forall>r \<in> set (requests ?s2). fst r \<noteq> api_dates"
    by (simp add: r2)
  obtain s3 where s3: "step (Settle i out1) ?s2 = Some s3" and s': "step (Settle j out2) s3 = Some s'"
    using assms(4) by (auto split: option.splits)
  have f3: "flagLoading s3 = Some 1"
    using settle_counter(1) [OF s3 nd2] f2 by simp
  have nd3: "\<forall>r \<in> set (requests s3). fst r \<noteq> api_dates"
    and l3: "Suc (length (requests s3)) = length (requests ?s2)"
    using settle_requests [OF s3 nd2] by simp_all
  have f4: "flagLoading s' = Some 0"
    using settle_counter(1) [OF s' nd3] f3 by simp
  have released: "\<not> buttonLoading s' \<and> \<not> overlay s'"
    using settle_counter(4) [OF s' nd3] f4 by simp
  have nd4: "\<forall>r \<in> set (requests s'). fst r \<noteq> api_dates"
    and l4: "Suc (length (requests s')) = length (requests s3)"
    using settle_requests [OF s' nd3] by simp_all
  have len: "length (requests s') = 2"
    using l3 l4 r2 by simp
  have dl: "console (download s') = console s'"
    using f4 by (simp add: download_def)
  have later: "flagLoading s'' = Some (- 2)"
    if run2: "run [Settle k out3, Settle l out4] s' = Some s''" for k out3 l out4 s''
  proof -
    obtain s5 where s5: "step (Settle k out3) s' = Some s5"
      and s6: "step (Settle l out4) s5 = Some s''"
      using run2 by (auto split: option.splits)
    have f5: "flagLoading s5 = Some (- 1)"
      using settle_counter(1) [OF s5 nd4] f4 by simp
    have nd5: "\<forall>r \<in> set (requests s5). fst r \<noteq> api_dates"
      using settle_requests [OF s5 nd4] by simp
    show ?thesis
      using settle_counter(1) [OF s6 nd5] f5 by simp
  qed
  show ?thesis
    using f2 r2 f4 released len dl later by simp
qed

text \<open>
  On the blank page: 2021-07-22, then 2021-07-23 at once; both fetches of the 22nd are
  rejected. The counter is 0 with the two requests of the 23rd in flight, and \<open>-2\<close> once
  they are rejected too.
\<close>

theorem overlapping_navigation_counter_witness:
  "ValidateDate ''2021-07-22'' \<and> ValidateDate ''2021-07-23'' \<and> requests blank_page = []
   \<and> run [Navigate ''2021-07-22'', Navigate ''2021-07-23'', Settle 0 FetchRejected,
           Settle 0 FetchRejected] blank_page \<noteq> None
   \<and> flagLoading (the (run [Navigate ''2021-07-22'', Navigate ''2021-07-23'',
         Settle 0 FetchRejected, Settle 0 FetchRejected] blank_page)) = Some 0
   \<and> requests (the (run [Navigate ''2021-07-22'', Navigate ''2021-07-23'',
         Settle 0 FetchRejected, Settle 0 FetchRejected] blank_page))
       = [(api_energy, ''2021-07-23''), (api_bids, ''2021-07-23'')]
   \<and> \<not> buttonLoading (the (run [Navigate ''2021-07-22'', Navigate ''2021-07-23'',
         Settle 0 FetchRejected, Settle 0 FetchRejected] blank_page))
   \<and> map_option flagLoading
        (run [Navigate ''2021-07-22'', Navigate ''2021-07-23'', Settle 0 FetchRejected,
              Settle 0 FetchRejected, Settle 0 FetchRejected, Settle 0 FetchRejected]
           blank_page) = Some (Some (- 2))"
proof -
  let ?evs = "[Navigate ''2021-07-22'', Navigate ''2021-07-23'', Settle 0 FetchRejected,
               Settle 0 FetchRejected]"
  have v1: "ValidateDate ''2021-07-22''" and v2: "ValidateDate ''2021-07-23''"
    by code_simp+
  have r0: "requests blank_page = []"
    by (simp add: blank_page_def)
  have some: "run ?evs blank_page \<noteq> None"
    by code_simp
  then have h: "run ?evs blank_page = Some (the (run ?evs blank_page))"
    by simp
  have req: "requests (the (run ?evs blank_page))
       = [(api_energy, ''2021-07-23''), (api_bids, ''2021-07-23'')]"
    by code_simp
  have four: "map_option flagLoading
        (run [Navigate ''2021-07-22'', Navigate ''2021-07-23'', Settle 0 FetchRejected,
              Settle 0 FetchRejected, Settle 0 FetchRejected, Settle 0 FetchRejected]
           blank_page) = Some (Some (- 2))"
    by code_simp
  have zero: "flagLoading (the (run ?evs blank_page)) = Some 0"
    and released: "\<not> buttonLoading (the (run ?evs blank_page))"
    using overlapping_navigation_counter [OF v1 v2 r0 h] by blast+
  show ?thesis
    using v1 v2 r0 some req four zero released by blast
qed

section \<open>Resolving a date against the catalog\<close>

text \<open>The comparison \<^verbatim>\<open>>\<close> of two day numbers, either of which may be \<^verbatim>\<open>NaN\<close>.\<close>

lemma num_gt_irrefl: "\<not> num_gt a a"
  by (cases a) auto

lemma num_gt_trans: "num_gt a b \<Longrightarrow> num_gt b c \<Longrightarrow> num_gt a c"
  by (cases a; cases b; cases c) auto

lemma num_gt_asym: "num_gt a b \<Longrightarrow> \<not> num_gt b a"
  by (cases a; cases b) auto

lemma not_gt_below: "\<not> num_gt x b \<Longrightarrow> num_gt a b \<Longrightarrow> \<not> num_gt x a"
  by (cases a; cases b; cases x) auto

text \<open>The scan of a month with an exact match ends at the first such day.\<close>

lemma scan_days_exact:
  assumes "\<exists>d \<in> set ds. day_date d = pageDate"
  shows "\<exists>d. scan_days pageDate latest ds = (Some d, True) \<and> d \<in> set ds \<and> day_date d = pageDate"
  using assms
proof (induction ds arbitrary: latest)
  case Nil
  then show ?case by simp
next
  case (Cons x ds)
  show ?case
  proof (cases "day_date x = pageDate")
    case True
    then show ?thesis by (simp add: Let_def)
  next
    case False
    then have "\<exists>d \<in> set ds. day_date d = pageDate" using Cons.prems by simp
    then show ?thesis
      using Cons.IH False by (auto simp: Let_def)
  qed
qed

text \<open>
  The scan of a month with no exact match, from a \<^verbatim>\<open>latest\<close> already set: it ends with that
  day or with a later one of a greater number, and no day scanned has a greater number
  than the result.
\<close>

lemma scan_days_from:
  assumes "\<forall>d \<in> set ds. day_date d \<noteq> pageDate"
  shows "\<exists>d. scan_days pageDate (Some l) ds = (Some d, False)
           \<and> (d = l \<or> (d \<in> set ds \<and> num_gt (day d) (day l)))
           \<and> (\<forall>d' \<in> set ds. \<not> num_gt (day d') (day d))"
  using assms
proof (induction ds arbitrary: l)
  case Nil
  then show ?case by simp
next
  case (Cons x ds)
  have nx: "day_date x \<noteq> pageDate" and rest: "\<forall>d \<in> set ds. day_date d \<noteq> pageDate"
    using Cons.prems by simp_all
  show ?case
  proof (cases "num_gt (day x) (day l)")
    case True
    have eq: "scan_days pageDate (Some l) (x # ds) = scan_days pageDate (Some x) ds"
      using nx True by (simp add: Let_def)
    obtain d where d1: "scan_days pageDate (Some x) ds = (Some d, False)"
      and d2: "d = x \<or> (d \<in> set ds \<and> num_gt (day d) (day x))"
      and d3: "\<forall>d' \<in> set ds. \<not> num_gt (day d') (day d)"
      using Cons.IH [OF rest, of x] by blast
    have a: "d \<in> set (x # ds) \<and> num_gt (day d) (day l)"
    proof (cases "d = x")
      case True
      then show ?thesis using \<open>num_gt (day x) (day l)\<close> by simp
    next
      case False
      then have "d \<in> set ds" and "num_gt (day d) (day x)" using d2 by simp_all
      then show ?thesis
        using num_gt_trans [of "day d" "day x" "day l"] \<open>num_gt (day x) (day l)\<close> by simp
    qed
    have b: "\<not> num_gt (day x) (day d)"
    proof (cases "d = x")
      case True
      then show ?thesis by (simp add: num_gt_irrefl)
    next
      case False
      then have "num_gt (day d) (day x)" using d2 by simp
      then show ?thesis by (rule num_gt_asym)
    qed
    have c: "\<forall>d' \<in> set (x # ds). \<not> num_gt (day d') (day d)"
      using b d3 by simp
    show ?thesis
      unfolding eq using d1 a c by blast
  next
    case False
    have eq: "scan_days pageDate (Some l) (x # ds) = scan_days pageDate (Some l) ds"
      using nx False by (simp add: Let_def)
    obtain d where d1: "scan_days pageDate (Some l) ds = (Some d, False)"
      and d2: "d = l \<or> (d \<in> set ds \<and> num_gt (day d) (day l))"
      and d3: "\<forall>d' \<in> set ds. \<not> num_gt (day d') (day d)"
      using Cons.IH [OF rest, of l] by blast
    have a: "d = l \<or> (d \<in> set (x # ds) \<and> num_gt (day d) (day l))"
      using d2 by auto
    have b: "\<not> num_gt (day x) (day d)"
    proof (cases "d = l")
      case True
      then show ?thesis using False by simp
    next
      case dl: False
      then have "num_gt (day d) (day l)" using d2 by simp
      then show ?thesis using not_gt_below [OF False] by simp
    qed
    have c: "\<forall>d' \<in> set (x # ds). \<not> num_gt (day d') (day d)"
      using b d3 by simp
    show ?thesis
      unfolding eq using d1 a c by blast
  qed
qed

lemma scan_days_fallback:
  assumes "\<forall>d \<in> set ds. day_date d \<noteq> pageDate" and "ds \<noteq> []"
  shows "\<exists>d. scan_days pageDate None ds = (Some d, False) \<and> d \<in> set ds
           \<and> (\<forall>d' \<in> set ds. \<not> num_gt (day d') (day d))"
proof -
  obtain x xs where ds: "ds = x # xs"
    using assms(2) by (cases ds) auto
  have nx: "day_date x \<noteq> pageDate" and rest: "\<forall>d \<in> set xs. day_date d \<noteq> pageDate"
    using assms(1) ds by simp_all
  have eq: "scan_days pageDate None (x # xs) = scan_days pageDate (Some x) xs"
    using nx by (simp add: Let_def num_gt_irrefl)
  obtain d where d1: "scan_days pageDate (Some x) xs = (Some d, False)"
    and d2: "d = x \<or> (d \<in> set xs \<and> num_gt (day d) (day x))"
    and d3: "\<forall>d' \<in> set xs. \<not> num_gt (day d') (day d)"
    using scan_days_from [OF rest, of x] by blast
  have a: "d \<in> set (x # xs)"
    using d2 by auto
  have b: "\<not> num_gt (day x) (day d)"
  proof (cases "d = x")
    case True
    then show ?thesis by (simp add: num_gt_irrefl)
  next
    case False
    then have "num_gt (day d) (day x)" using d2 by simp
    then show ?thesis by (rule num_gt_asym)
  qed
  have c: "\<forall>d' \<in> set (x # xs). \<not> num_gt (day d') (day d)"
    using b d3 by simp
  show ?thesis
    unfolding ds eq using d1 a c by blast
qed

text \<open>The loop over the months passes those before the first match.\<close>

lemma find_latest_skip:
  assumes "\<forall>m' \<in> set pre. month_date m' \<noteq> prefix"
    and "prefix = ToString (index (split (CHR ''-'') pageDate) 0) @ ''-''
                    @ ToString (index (split (CHR ''-'') pageDate) 1)"
  shows "find_latest (pre @ rest) pageDate pageType = find_latest rest pageDate pageType"
  using assms by (induction pre) auto

text \<open>
  C4. For every catalog and every target of day granularity whose year and month are
  those of a month of the catalog (the first such month counts): when a day of that month
  has the target as its date, that day is the result and the match is exact, wherever the
  day stands; when none has, the result is a day of the month than which no day of the
  month has a greater number, and the match is not exact.
\<close>

theorem find_latest_day:
  assumes "month_date m = ToString (index (split (CHR ''-'') pageDate) 0) @ ''-''
                            @ ToString (index (split (CHR ''-'') pageDate) 1)"
    and "\<forall>m' \<in> set pre. month_date m' \<noteq> month_date m"
  shows "((\<exists>d \<in> set (days m). day_date d = pageDate) \<longrightarrow>
            (\<exists>d. find_latest (pre @ m # post) pageDate Day = (Some (FoundDay d), True)
                \<and> d \<in> set (days m) \<and> day_date d = pageDate))
       \<and> ((\<forall>d \<in> set (days m). day_date d \<noteq> pageDate) \<and> days m \<noteq> [] \<longrightarrow>
            (\<exists>d. find_latest (pre @ m # post) pageDate Day = (Some (FoundDay d), False)
                \<and> d \<in> set (days m)
                \<and> (\<forall>d' \<in> set (days m). \<not> num_gt (day d') (day d))))"
proof -
  have skip: "find_latest (pre @ m # post) pageDate Day = find_latest (m # post) pageDate Day"
    using find_latest_skip [of pre "month_date m" pageDate "m # post" Day] assms by simp
  have here: "find_latest (m # post) pageDate Day
      = (case scan_days pageDate None (days m) of
           (latest, foundExact) \<Rightarrow> (map_option FoundDay latest, foundExact))"
    using assms(1) by simp
  have exact: "\<exists>d. find_latest (pre @ m # post) pageDate Day = (Some (FoundDay d), True)
                \<and> d \<in> set (days m) \<and> day_date d = pageDate"
    if "\<exists>d \<in> set (days m). day_date d = pageDate"
    using scan_days_exact [OF that, of None] skip here by auto
  have fallback: "\<exists>d. find_latest (pre @ m # post) pageDate Day = (Some (FoundDay d), False)
                \<and> d \<in> set (days m)
                \<and> (\<forall>d' \<in> set (days m). \<not> num_gt (day d') (day d))"
    if "\<forall>d \<in> set (days m). day_date d \<noteq> pageDate" "days m \<noteq> []"
    using scan_days_fallback [OF that] skip here by auto
  show ?thesis
    using exact fallback by blast
qed

text \<open>
  The example of the specification: the month 2021-07 with the days 5 and 20. The target
  2021-07-10 resolves to the day 20, not to the nearer day 5; the target 2021-07-05 to
  the day 5, which is not the highest.
\<close>

theorem find_latest_day_witness:
  "ProcessDates [(''2021-07'', [DayNumber 5, DayNumber 20])] = [july_2021]
   \<and> find_latest [july_2021] ''2021-07-10'' Day
     = (Some (FoundDay \<lparr> day_date = ''2021-07-20'', day = Num 20 \<rparr>), False)
   \<and> find_latest [july_2021] ''2021-07-05'' Day
     = (Some (FoundDay \<lparr> day_date = ''2021-07-05'', day = Num 5 \<rparr>), True)
   \<and> (\<exists>d. find_latest ([] @ july_2021 # []) ''2021-07-10'' Day = (Some (FoundDay d), False)
          \<and> d \<in> set (days july_2021)
          \<and> (\<forall>d' \<in> set (days july_2021). \<not> num_gt (day d') (day d)))
   \<and> (\<exists>d. find_latest ([] @ july_2021 # []) ''2021-07-05'' Day = (Some (FoundDay d), True)
          \<and> d \<in> set (days july_2021) \<and> day_date d = ''2021-07-05'')"
proof -
  have h1: "month_date july_2021
      = ToString (index (split (CHR ''-'') ''2021-07-10'') 0) @ ''-''
          @ ToString (index (split (CHR ''-'') ''2021-07-10'') 1)"
    by (simp add: july_2021_def index_def)
  have h1': "month_date july_2021
      = ToString (index (split (CHR ''-'') ''2021-07-05'') 0) @ ''-''
          @ ToString (index (split (CHR ''-'') ''2021-07-05'') 1)"
    by (simp add: july_2021_def index_def)
  have h2: "\<forall>m' \<in> set []. month_date m' \<noteq> month_date july_2021"
    by simp
  have h3: "(\<forall>d \<in> set (days july_2021). day_date d \<noteq> ''2021-07-10'') \<and> days july_2021 \<noteq> []"
    by (simp add: july_2021_def)
  have h4: "\<exists>d \<in> set (days july_2021). day_date d = ''2021-07-05''"
    by (simp add: july_2021_def)
  have e0: "ProcessDates [(''2021-07'', [DayNumber 5, DayNumber 20])] = [july_2021]"
    by code_simp
  have e1: "find_latest [july_2021] ''2021-07-10'' Day
     = (Some (FoundDay \<lparr> day_date = ''2021-07-20'', day = Num 20 \<rparr>), False)"
    by code_simp
  have e2: "find_latest [july_2021] ''2021-07-05'' Day
     = (Some (FoundDay \<lparr> day_date = ''2021-07-05'', day = Num 5 \<rparr>), True)"
    by code_simp
  have f: "\<exists>d. find_latest ([] @ july_2021 # []) ''2021-07-10'' Day = (Some (FoundDay d), False)
          \<and> d \<in> set (days july_2021)
          \<and> (\<forall>d' \<in> set (days july_2021). \<not> num_gt (day d') (day d))"
    using find_latest_day [OF h1 h2, of "[]"] h3 by blast
  have x: "\<exists>d. find_latest ([] @ july_2021 # []) ''2021-07-05'' Day = (Some (FoundDay d), True)
          \<and> d \<in> set (days july_2021) \<and> day_date d = ''2021-07-05''"
    using find_latest_day [OF h1' h2, of "[]"] h4 by blast
  show ?thesis
    using e0 e1 e2 f x by blast
qed

section \<open>ProcessDates\<close>

subsection \<open>Digits\<close>
















subsection \<open>Splitting a key\<close>








subsection \<open>The two loops\<close>


lemma foldl_month_step:
  "foldl month_step acc data
     = acc @ map (\<lambda>(yearMonth, monthDays).
         \<lparr> days = foldl (day_cb yearMonth) [] monthDays,
           month = parseInt (ToString (index (split (CHR ''-'') yearMonth) 1)),
           year = parseInt (ToString (index (split (CHR ''-'') yearMonth) 0)),
           month_date = yearMonth,
           name = index_num MonthNames
                    (num_sub (parseInt (ToString (index (split (CHR ''-'') yearMonth) 1)))
                       (Num 1)) \<rparr>) data"
  by (induction data arbitrary: acc) (auto simp: month_step_def Let_def)

text \<open>The months come out in the order of the keys, one for each key.\<close>

lemma ProcessDates_order: "map month_date (ProcessDates data) = map fst data"
  by (simp add: ProcessDates_def foldl_month_step case_prod_beta comp_def)

lemma ProcessDates_length: "length (ProcessDates data) = length data"
  by (simp add: ProcessDates_def foldl_month_step)

lemma ProcessDates_not_sorted:
  "map month_date (ProcessDates [(''2021-08'', [DayNumber 1]), (''2021-07'', [DayNumber 22])])
     = [''2021-08'', ''2021-07'']"
  by (simp add: ProcessDates_order)




end
